theory Spec2Isabelle
  imports Main "HOL-Library.Word"
begin

section \<open>Values, errors and the console\<close>

text \<open>
  JavaScript strings are modelled as \<open>string\<close>, one \<open>char\<close> per code unit (code units
  up to 255). JSON response bodies are values of \<open>jsval\<close>; numbers are integers.
\<close>

datatype jsval =
    JUndefined
  | JNull
  | JBool bool
  | JNum int
  | JStr string
  | JObj "(string \<times> jsval) list"

text \<open>Truthiness, as \<open>if (v)\<close>, \<open>!v\<close> and \<open>v || d\<close> test it.\<close>

fun truthy :: "jsval \<Rightarrow> bool" where
  "truthy JUndefined = False"
| "truthy JNull = False"
| "truthy (JBool b) = b"
| "truthy (JNum n) = (n \<noteq> 0)"
| "truthy (JStr s) = (s \<noteq> [])"
| "truthy (JObj kvs) = True"

text \<open>
  Property access \<open>v.k\<close>: \<open>None\<close> is the TypeError of reading a property of
  \<open>null\<close> or \<open>undefined\<close>; a missing key, and any key of a primitive, reads as
  \<open>undefined\<close>.
\<close>

fun get_prop :: "jsval \<Rightarrow> string \<Rightarrow> jsval option" where
  "get_prop JUndefined k = None"
| "get_prop JNull k = None"
| "get_prop (JObj kvs) k = (case map_of kvs k of None \<Rightarrow> Some JUndefined | Some v \<Rightarrow> Some v)"
| "get_prop v k = Some JUndefined"

definition digit_char :: "nat \<Rightarrow> char" where
  "digit_char d = ''0123456789'' ! (d mod 10)"

fun show_nat :: "nat \<Rightarrow> string" where
  "show_nat n = (if n < 10 then [digit_char n] else show_nat (n div 10) @ [digit_char (n mod 10)])"

definition show_int :: "int \<Rightarrow> string" where
  "show_int i = (if i < 0 then CHR ''-'' # show_nat (nat (- i)) else show_nat (nat i))"

text \<open>String conversion inside a template literal \<open>`${v}`\<close>.\<close>

fun to_string :: "jsval \<Rightarrow> string" where
  "to_string JUndefined = ''undefined''"
| "to_string JNull = ''null''"
| "to_string (JBool b) = (if b then ''true'' else ''false'')"
| "to_string (JNum n) = show_int n"
| "to_string (JStr s) = s"
| "to_string (JObj kvs) = ''[object Object]''"

text \<open>
  A thrown error object: the \<open>name\<close> its class sets and its \<open>message\<close>.
\<close>

datatype js_error = JsError (err_name: string) (err_message: string)

text \<open>
  The exceptions module exports exactly these classes. A manager that destructures a
  name the module does not export binds it to \<open>undefined\<close>, and \<open>new\<close> on it throws
  a TypeError instead of constructing the error.
\<close>

definition exceptions_exports :: "string list" where
  "exceptions_exports =
     [''AirTapError'', ''ApiKeyError'', ''ConnectionError'', ''StreamError'',
      ''AppError'', ''RecordError'', ''FileError'']"

definition new_error :: "string \<Rightarrow> string \<Rightarrow> js_error" where
  "new_error cls msg =
     (if cls \<in> set exceptions_exports then JsError cls msg
      else JsError ''TypeError'' (cls @ '' is not a constructor''))"

datatype console = Warn string | Error string

section \<open>The sandbox object seen by the managers\<close>

text \<open>
  Every manager holds a reference to its parent sandbox and calls
  \<open>sandbox.executeShellCommand\<close>, \<open>sandbox.apiClient.{get,post,put,delete}\<close> and reads
  \<open>sandbox.deviceId\<close>. The \<open>AndroidSandbox\<close> class of the sources defines none of the
  three, and the remote service is outside the repository, so they are parameters of the
  model: the sandbox object is given by its replies. Each reply is a function of the calls
  issued so far and of the current request, and is either a thrown error or the resolved
  value; this covers every client object, the repository's \<open>ApiClient\<close> included. The
  model records every call in a trace.
\<close>

datatype event =
    Shell string
  | ApiGet string jsval
  | ApiPost string jsval
  | ApiDelete string
  | Sleep nat

record sandbox =
  shell_reply :: "event list \<Rightarrow> string \<Rightarrow> js_error + string"
  get_reply :: "event list \<Rightarrow> string \<Rightarrow> jsval \<Rightarrow> js_error + jsval"
  post_reply :: "event list \<Rightarrow> string \<Rightarrow> jsval \<Rightarrow> js_error + jsval"
  delete_reply :: "event list \<Rightarrow> string \<Rightarrow> js_error + jsval"
  deviceId :: jsval

definition executeShellCommand ::
  "sandbox \<Rightarrow> string \<Rightarrow> event list \<Rightarrow> (js_error + string) \<times> event list" where
  "executeShellCommand sb cmd tr = (shell_reply sb tr cmd, tr @ [Shell cmd])"

definition apiClient_get ::
  "sandbox \<Rightarrow> string \<Rightarrow> jsval \<Rightarrow> event list \<Rightarrow> (js_error + jsval) \<times> event list" where
  "apiClient_get sb endpoint params tr = (get_reply sb tr endpoint params, tr @ [ApiGet endpoint params])"

definition apiClient_post ::
  "sandbox \<Rightarrow> string \<Rightarrow> jsval \<Rightarrow> event list \<Rightarrow> (js_error + jsval) \<times> event list" where
  "apiClient_post sb endpoint body tr = (post_reply sb tr endpoint body, tr @ [ApiPost endpoint body])"

definition apiClient_delete ::
  "sandbox \<Rightarrow> string \<Rightarrow> event list \<Rightarrow> (js_error + jsval) \<times> event list" where
  "apiClient_delete sb endpoint tr = (delete_reply sb tr endpoint, tr @ [ApiDelete endpoint])"

text \<open>\<open>`${id}`\<close> for a field that holds a string or \<open>null\<close>.\<close>

definition id_str :: "string option \<Rightarrow> string" where
  "id_str i = (case i of None \<Rightarrow> ''null'' | Some s \<Rightarrow> s)"

section \<open>StreamManager\<close>

record stream_manager =
  streamId :: "string option"
  streamUrl :: "jsval"
  isStreaming :: bool

text \<open>
  \<open>StreamManager.stop\<close>: the whole body is one \<open>try\<close>; the two assignments come after
  the awaited delete, so a rejected delete skips them and is rethrown as a StreamError.
\<close>

definition stream_stop ::
  "sandbox \<Rightarrow> stream_manager \<Rightarrow> event list \<Rightarrow> (js_error + bool) \<times> stream_manager \<times> event list" where
  "stream_stop sb m tr =
     (if \<not> isStreaming m then (Inr True, m, tr)
      else
        (case apiClient_delete sb (''/stream/'' @ id_str (streamId m)) tr of
           (Inl error, tr') \<Rightarrow>
             (Inl (new_error ''StreamError'' (''Failed to stop stream: '' @ err_message error)), m, tr')
         | (Inr response, tr') \<Rightarrow>
             (Inr True, m\<lparr>isStreaming := False, streamUrl := JNull\<rparr>, tr')))"

text \<open>A sandbox whose every call is rejected, and a manager with a stream running.\<close>

definition failing_sandbox :: sandbox where
  "failing_sandbox =
     \<lparr>shell_reply = (\<lambda>tr cmd. Inl (JsError ''Error'' ''socket hang up'')),
      get_reply = (\<lambda>tr ep ps. Inl (JsError ''Error'' ''socket hang up'')),
      post_reply = (\<lambda>tr ep b. Inl (JsError ''Error'' ''socket hang up'')),
      delete_reply = (\<lambda>tr ep. Inl (JsError ''Error'' ''socket hang up'')),
      deviceId = JStr ''dev-1''\<rparr>"

definition live_stream :: stream_manager where
  "live_stream = \<lparr>streamId = Some ''s-1'', streamUrl = JStr ''wss://stream/s-1'', isStreaming = True\<rparr>"

section \<open>FileManager\<close>

text \<open>
  Buffers are lists of bytes. \<open>buffer.toString('base64')\<close> and
  \<open>Buffer.from(text, 'base64')\<close> belong to the platform; they are modelled as the
  RFC 4648 encoder with padding and the platform's lenient decoder, which stops at the
  first \<open>=\<close>, skips every character outside the alphabet (the URL-safe \<open>-\<close> and
  \<open>_\<close> count as 62 and 63) and turns each complete or partial group of sextets into bytes.
\<close>

type_synonym byte = "8 word"

definition b64_alphabet :: string where
  "b64_alphabet = ''ABCDEFGHIJKLMNOPQRSTUVWXYZabcdefghijklmnopqrstuvwxyz0123456789+/''"

definition b64_char :: "nat \<Rightarrow> char" where
  "b64_char i = b64_alphabet ! (i mod 64)"

fun toString_base64 :: "byte list \<Rightarrow> string" where
  "toString_base64 [] = []"
| "toString_base64 [a] =
     [b64_char (unat a div 4), b64_char (unat a mod 4 * 16), CHR ''='', CHR ''='']"
| "toString_base64 [a, b] =
     [b64_char (unat a div 4), b64_char (unat a mod 4 * 16 + unat b div 16),
      b64_char (unat b mod 16 * 4), CHR ''='']"
| "toString_base64 (a # b # c # rest) =
     [b64_char (unat a div 4), b64_char (unat a mod 4 * 16 + unat b div 16),
      b64_char (unat b mod 16 * 4 + unat c div 64), b64_char (unat c mod 64)]
     @ toString_base64 rest"

fun index_of :: "'a \<Rightarrow> 'a list \<Rightarrow> nat option" where
  "index_of x [] = None"
| "index_of x (y # ys) =
     (if x = y then Some 0 else (case index_of x ys of None \<Rightarrow> None | Some i \<Rightarrow> Some (Suc i)))"

definition unbase64 :: "char \<Rightarrow> nat option" where
  "unbase64 c =
     (if c = CHR ''-'' then Some 62 else if c = CHR ''_'' then Some 63
      else index_of c b64_alphabet)"

fun sextets_to_bytes :: "nat list \<Rightarrow> byte list" where
  "sextets_to_bytes (s1 # s2 # s3 # s4 # rest) =
     [of_nat (s1 * 4 + s2 div 16), of_nat (s2 mod 16 * 16 + s3 div 4), of_nat (s3 mod 4 * 64 + s4)]
     @ sextets_to_bytes rest"
| "sextets_to_bytes [s1, s2, s3] = [of_nat (s1 * 4 + s2 div 16), of_nat (s2 mod 16 * 16 + s3 div 4)]"
| "sextets_to_bytes [s1, s2] = [of_nat (s1 * 4 + s2 div 16)]"
| "sextets_to_bytes ss = []"

definition from_base64 :: "string \<Rightarrow> byte list" where
  "from_base64 s = sextets_to_bytes (List.map_filter unbase64 (takeWhile (\<lambda>c. c \<noteq> CHR ''='') s))"

text \<open>
  \<open>Buffer.from(v, 'base64')\<close> on a value read from a response: a string is decoded;
  \<open>undefined\<close>, \<open>null\<close>, a boolean and a number are a TypeError. Array-like objects
  are not modelled and counted with them.
\<close>

definition Buffer_from_base64 :: "jsval \<Rightarrow> js_error + byte list" where
  "Buffer_from_base64 v =
     (case v of JStr s \<Rightarrow> Inr (from_base64 s)
      | _ \<Rightarrow> Inl (JsError ''TypeError'' ''The first argument must be of type string or an instance of Buffer''))"

text \<open>
  The local file system and \<open>path.dirname\<close> belong to the platform, so they are
  parameters of the model: a file-system state of any type and the calls the file manager
  makes on it. \<open>fs.existsSync\<close> never throws. \<open>fs.readFileSync\<close> throws or returns the
  bytes. \<open>fs.mkdirSync\<close> (recursive) and \<open>fs.writeFileSync\<close> throw or return, and
  leave a file-system state behind in both cases.
\<close>

record 'f node_fs =
  existsSync :: "'f \<Rightarrow> string \<Rightarrow> bool"
  readFileSync :: "'f \<Rightarrow> string \<Rightarrow> js_error + byte list"
  mkdirSync :: "'f \<Rightarrow> string \<Rightarrow> (js_error + unit) \<times> 'f"
  writeFileSync :: "'f \<Rightarrow> string \<Rightarrow> byte list \<Rightarrow> (js_error + unit) \<times> 'f"
  path_dirname :: "string \<Rightarrow> string"

record 'f world =
  trace :: "event list"
  localfs :: 'f

definition pushFile ::
  "sandbox \<Rightarrow> 'f node_fs \<Rightarrow> string \<Rightarrow> string \<Rightarrow> 'f world \<Rightarrow> (js_error + bool) \<times> 'f world" where
  "pushFile sb nfs localPath remotePath w =
     (let rethrow = (\<lambda>error. new_error ''FileError''
            (''Failed to push file '' @ localPath @ '' to '' @ remotePath @ '': '' @ err_message error))
      in
      if \<not> existsSync nfs (localfs w) localPath then
        (Inl (rethrow (new_error ''FileError'' (''Local file '' @ localPath @ '' does not exist''))), w)
      else
        (case readFileSync nfs (localfs w) localPath of
           Inl error \<Rightarrow> (Inl (rethrow error), w)
         | Inr fileContent \<Rightarrow>
             (let base64Content = toString_base64 fileContent in
              case apiClient_post sb ''/files/push''
                     (JObj [(''deviceId'', deviceId sb), (''path'', JStr remotePath),
                            (''content'', JStr base64Content)]) (trace w) of
                (Inl error, tr') \<Rightarrow> (Inl (rethrow error), w\<lparr>trace := tr'\<rparr>)
              | (Inr response, tr') \<Rightarrow> (Inr True, w\<lparr>trace := tr'\<rparr>))))"

text \<open>
  The directory step of \<open>pullFile\<close>: \<open>mkdirSync\<close> is called only when nothing exists at
  the directory of the destination.
\<close>

definition ensure_dir :: "'f node_fs \<Rightarrow> 'f \<Rightarrow> string \<Rightarrow> (js_error + unit) \<times> 'f" where
  "ensure_dir nfs f localPath =
     (let dir = path_dirname nfs localPath in
      if \<not> existsSync nfs f dir then mkdirSync nfs f dir else (Inr (), f))"

definition pullFile ::
  "sandbox \<Rightarrow> 'f node_fs \<Rightarrow> string \<Rightarrow> string \<Rightarrow> 'f world \<Rightarrow> (js_error + bool) \<times> 'f world" where
  "pullFile sb nfs remotePath localPath w =
     (let rethrow = (\<lambda>error. new_error ''FileError''
            (''Failed to pull file '' @ remotePath @ '' to '' @ localPath @ '': '' @ err_message error))
      in
      case apiClient_get sb ''/files/pull''
             (JObj [(''deviceId'', deviceId sb), (''path'', JStr remotePath)]) (trace w) of
        (Inl error, tr') \<Rightarrow> (Inl (rethrow error), w\<lparr>trace := tr'\<rparr>)
      | (Inr response, tr') \<Rightarrow>
          (case get_prop response ''content'' of
             None \<Rightarrow>
               (Inl (rethrow (JsError ''TypeError'' ''Cannot read properties of undefined (reading content)'')),
                w\<lparr>trace := tr'\<rparr>)
           | Some content \<Rightarrow>
               (case Buffer_from_base64 content of
                  Inl error \<Rightarrow> (Inl (rethrow error), w\<lparr>trace := tr'\<rparr>)
                | Inr buffer \<Rightarrow>
                    (case ensure_dir nfs (localfs w) localPath of
                       (Inl error, f1) \<Rightarrow> (Inl (rethrow error), w\<lparr>trace := tr', localfs := f1\<rparr>)
                     | (Inr made, f1) \<Rightarrow>
                         (case writeFileSync nfs f1 localPath buffer of
                            (Inl error, f2) \<Rightarrow>
                              (Inl (rethrow error), w\<lparr>trace := tr', localfs := f2\<rparr>)
                          | (Inr written, f2) \<Rightarrow> (Inr True, w\<lparr>trace := tr', localfs := f2\<rparr>))))))"

definition deleteFile ::
  "sandbox \<Rightarrow> string \<Rightarrow> event list \<Rightarrow> (js_error + bool) \<times> event list" where
  "deleteFile sb remotePath tr =
     (case executeShellCommand sb (''rm -f '' @ remotePath) tr of
        (Inl error, tr') \<Rightarrow>
          (Inl (new_error ''FileError''
                  (''Failed to delete file '' @ remotePath @ '': '' @ err_message error)), tr')
      | (Inr output, tr') \<Rightarrow> (Inr True, tr'))"

text \<open>\<open>\s\<close> and \<open>String.prototype.trim\<close> on code units up to 255.\<close>

definition js_space :: "char \<Rightarrow> bool" where
  "js_space c = (of_char c \<in> {9, 10, 11, 12, 13, 32, 160 :: nat})"

definition js_trim :: "string \<Rightarrow> string" where
  "js_trim s = rev (dropWhile js_space (rev (dropWhile js_space s)))"

definition exists_command :: "string \<Rightarrow> string" where
  \<open>exists_command remotePath =
     ''[ -e '' @ remotePath @ '' ] && echo "exists" || echo "not exists"''\<close>

definition fileExists ::
  "sandbox \<Rightarrow> string \<Rightarrow> event list \<Rightarrow> (js_error + bool) \<times> event list" where
  "fileExists sb remotePath tr =
     (case executeShellCommand sb (exists_command remotePath) tr of
        (Inl error, tr') \<Rightarrow>
          (Inl (new_error ''FileError''
                  (''Failed to check if file '' @ remotePath @ '' exists: '' @ err_message error)), tr')
      | (Inr output, tr') \<Rightarrow> (Inr (js_trim output = ''exists''), tr'))"

text \<open>
  A transport that stores what is pushed and returns it: a pull of a path answers with
  the content of the latest push to that path in the trace.
\<close>

definition pushed_content :: "string \<Rightarrow> event \<Rightarrow> jsval option" where
  "pushed_content p e =
     (case e of
        ApiPost endpoint body \<Rightarrow>
          (if endpoint = ''/files/push'' \<and> get_prop body ''path'' = Some (JStr p)
           then get_prop body ''content'' else None)
      | _ \<Rightarrow> None)"

definition stored_content :: "event list \<Rightarrow> string \<Rightarrow> jsval" where
  "stored_content tr p =
     (case List.map_filter (pushed_content p) (rev tr) of [] \<Rightarrow> JUndefined | c # cs \<Rightarrow> c)"

definition storing_sandbox :: "jsval \<Rightarrow> sandbox" where
  "storing_sandbox dev =
     \<lparr>shell_reply = (\<lambda>tr cmd. Inr []),
      get_reply = (\<lambda>tr endpoint params.
         (case get_prop params ''path'' of
            Some (JStr p) \<Rightarrow>
              (if endpoint = ''/files/pull'' then Inr (JObj [(''content'', stored_content tr p)])
               else Inr (JObj []))
          | _ \<Rightarrow> Inr (JObj []))),
      post_reply = (\<lambda>tr endpoint body. Inr (JObj [(''success'', JBool True)])),
      delete_reply = (\<lambda>tr endpoint. Inr (JObj [])),
      deviceId = dev\<rparr>"

section \<open>RecordManager\<close>

record record_manager =
  recordingId :: "string option"
  isRecording :: bool
  recordingStartTime :: "nat option"

record record_options =
  width :: int
  height :: int
  bitRate :: int
  audio :: bool
  timeLimit :: int

text \<open>\<open>!id\<close> for a field that holds a string or \<open>null\<close>.\<close>

definition no_id :: "string option \<Rightarrow> bool" where
  "no_id i = (case i of None \<Rightarrow> True | Some s \<Rightarrow> s = [])"

definition recording_path :: "string option \<Rightarrow> string" where
  "recording_path i = ''/sdcard/recording_'' @ id_str i @ ''.mp4''"

definition screenrecord_command :: "record_options \<Rightarrow> string option \<Rightarrow> string" where
  "screenrecord_command options rid =
     (let audioOption = (if audio options then ''--audio-source=mic'' else ''--audio-source=none'')
      in ''screenrecord --size '' @ show_int (width options) @ ''x'' @ show_int (height options)
         @ '' --bit-rate '' @ show_int (bitRate options) @ ''M '' @ audioOption
         @ '' --time-limit '' @ show_int (timeLimit options) @ '' '' @ recording_path rid)"

text \<open>
  \<open>RecordManager.start\<close>: \<open>uuid\<close> is the value \<open>uuidv4()\<close> returns and \<open>now\<close> the
  value of \<open>new Date()\<close>. The id is assigned before the command is awaited.
\<close>

definition record_start ::
  "sandbox \<Rightarrow> string \<Rightarrow> nat \<Rightarrow> record_options \<Rightarrow> record_manager \<Rightarrow> event list
     \<Rightarrow> (js_error + string option) \<times> record_manager \<times> event list" where
  "record_start sb uuid now options m tr =
     (if isRecording m then (Inr (recordingId m), m, tr)
      else
        (let m1 = m\<lparr>recordingId := Some uuid\<rparr> in
         case executeShellCommand sb (screenrecord_command options (recordingId m1)) tr of
           (Inl error, tr') \<Rightarrow>
             (Inl (new_error ''RecordingError'' (''Failed to start recording: '' @ err_message error)),
              m1, tr')
         | (Inr output, tr') \<Rightarrow>
             (Inr (Some uuid), m1\<lparr>isRecording := True, recordingStartTime := Some now\<rparr>, tr')))"

text \<open>
  \<open>RecordManager.stop\<close>: the two-second timer is the event \<open>Sleep 2000\<close>;
  \<open>isRecording\<close> is cleared after it and before the artifact is looked for.
\<close>

definition record_stop ::
  "sandbox \<Rightarrow> record_manager \<Rightarrow> event list \<Rightarrow> (js_error + string) \<times> record_manager \<times> event list" where
  "record_stop sb m tr =
     (let rethrow = (\<lambda>error. new_error ''RecordingError''
            (''Failed to stop recording: '' @ err_message error))
      in
      if \<not> isRecording m then
        (Inl (rethrow (new_error ''RecordingError'' ''No active recording to stop'')), m, tr)
      else
        (case executeShellCommand sb ''pkill -INT screenrecord'' tr of
           (Inl error, tr1) \<Rightarrow> (Inl (rethrow error), m, tr1)
         | (Inr output, tr1) \<Rightarrow>
             (let tr2 = tr1 @ [Sleep 2000];
                  m' = m\<lparr>isRecording := False\<rparr>;
                  recordingPath = recording_path (recordingId m')
              in
              case fileExists sb recordingPath tr2 of
                (Inl error, tr3) \<Rightarrow> (Inl (rethrow error), m', tr3)
              | (Inr exists, tr3) \<Rightarrow>
                  (if \<not> exists then
                     (Inl (rethrow (new_error ''RecordingError'' ''Recording file not found'')), m', tr3)
                   else (Inr recordingPath, m', tr3)))))"

definition saveRecording ::
  "sandbox \<Rightarrow> 'f node_fs \<Rightarrow> string \<Rightarrow> record_manager \<Rightarrow> 'f world
     \<Rightarrow> (js_error + bool) \<times> record_manager \<times> 'f world" where
  "saveRecording sb nfs localPath m w =
     (let rethrow = (\<lambda>error. new_error ''RecordingError''
            (''Failed to save recording to '' @ localPath @ '': '' @ err_message error))
      in
      if isRecording m then
        (Inl (rethrow (new_error ''RecordingError'' ''Cannot save while recording is in progress'')), m, w)
      else if no_id (recordingId m) then
        (Inl (rethrow (new_error ''RecordingError'' ''No recording available to save'')), m, w)
      else
        (case pullFile sb nfs (recording_path (recordingId m)) localPath w of
           (Inl error, w') \<Rightarrow> (Inl (rethrow error), m, w')
         | (Inr ok, w') \<Rightarrow> (Inr True, m, w')))"

text \<open>
  The argument of \<open>deleteRecording\<close>: left out (or \<open>undefined\<close>), it defaults to the
  tracked id; \<open>null\<close> and a string are taken as they are.
\<close>

datatype id_arg = ArgUndefined | ArgNull | ArgStr string

definition arg_or_default :: "id_arg \<Rightarrow> string option \<Rightarrow> string option" where
  "arg_or_default a d = (case a of ArgUndefined \<Rightarrow> d | ArgNull \<Rightarrow> None | ArgStr s \<Rightarrow> Some s)"

definition deleteRecording ::
  "sandbox \<Rightarrow> id_arg \<Rightarrow> record_manager \<Rightarrow> event list \<Rightarrow> (js_error + bool) \<times> record_manager \<times> event list" where
  "deleteRecording sb arg m tr =
     (let recordingId' = arg_or_default arg (recordingId m);
          rethrow = (\<lambda>error. new_error ''RecordingError''
            (''Failed to delete recording: '' @ err_message error))
      in
      if no_id recordingId' then
        (Inl (rethrow (new_error ''RecordingError'' ''No recording ID provided'')), m, tr)
      else if isRecording m \<and> recordingId' = recordingId m then
        (Inl (rethrow (new_error ''RecordingError'' ''Cannot delete active recording'')), m, tr)
      else
        (case deleteFile sb (recording_path recordingId') tr of
           (Inl error, tr') \<Rightarrow> (Inl (rethrow error), m, tr')
         | (Inr ok, tr') \<Rightarrow>
             (Inr True, (if recordingId' = recordingId m then m\<lparr>recordingId := None\<rparr> else m), tr')))"

section \<open>AppManager\<close>

fun starts_with :: "string \<Rightarrow> string \<Rightarrow> bool" where
  "starts_with s [] = True"
| "starts_with [] (p # ps) = False"
| "starts_with (c # cs) (p # ps) = (c = p \<and> starts_with cs ps)"

text \<open>\<open>String.prototype.includes\<close>: the needle occurs somewhere as a contiguous run.\<close>

fun js_includes :: "string \<Rightarrow> string \<Rightarrow> bool" where
  "js_includes [] needle = (needle = [])"
| "js_includes (c # cs) needle = (starts_with (c # cs) needle \<or> js_includes cs needle)"

definition isInstalled ::
  "sandbox \<Rightarrow> string \<Rightarrow> event list \<Rightarrow> (js_error + bool) \<times> event list" where
  "isInstalled sb packageName tr =
     (case executeShellCommand sb (''pm list packages '' @ packageName) tr of
        (Inl error, tr') \<Rightarrow>
          (Inl (new_error ''AppError''
                  (''Failed to check if app '' @ packageName @ '' is installed: '' @ err_message error)), tr')
      | (Inr output, tr') \<Rightarrow> (Inr (js_includes output (''package:'' @ packageName)), tr'))"

text \<open>
  The pattern \<open>/^\s*([^\s]+)\s*$/m\<close>. With the \<open>m\<close> flag \<open>^\<close> and \<open>$\<close> hold at line
  breaks, and \<open>\s\<close> also matches the line breaks, so the pattern matches exactly when
  some line holds one token and nothing else but white space; the leftmost match captures
  the token of the first such line.
\<close>

definition js_line_terminator :: "char \<Rightarrow> bool" where
  "js_line_terminator c = (of_char c \<in> {10, 13 :: nat})"

fun split_on :: "(char \<Rightarrow> bool) \<Rightarrow> string \<Rightarrow> string list" where
  "split_on P [] = [[]]"
| "split_on P (c # cs) =
     (if P c then [] # split_on P cs
      else (case split_on P cs of [] \<Rightarrow> [[c]] | seg # segs \<Rightarrow> (c # seg) # segs))"

definition tokens :: "string \<Rightarrow> string list" where
  "tokens l = filter (\<lambda>t. t \<noteq> []) (split_on js_space l)"

definition match_single_token_line :: "string \<Rightarrow> string option" where
  "match_single_token_line output =
     (case List.map_filter (\<lambda>l. case tokens l of [t] \<Rightarrow> Some t | _ \<Rightarrow> None)
             (split_on js_line_terminator output) of
        [] \<Rightarrow> None
      | t # ts \<Rightarrow> Some t)"

definition launch ::
  "sandbox \<Rightarrow> string \<Rightarrow> event list \<Rightarrow> (js_error + bool) \<times> event list" where
  "launch sb packageName tr =
     (let rethrow = (\<lambda>error. new_error ''AppError''
            (''Failed to launch app '' @ packageName @ '': '' @ err_message error))
      in
      case isInstalled sb packageName tr of
        (Inl error, tr1) \<Rightarrow> (Inl (rethrow error), tr1)
      | (Inr installed, tr1) \<Rightarrow>
          (if \<not> installed then
             (Inl (rethrow (new_error ''AppError'' (''App '' @ packageName @ '' is not installed''))), tr1)
           else
             (case executeShellCommand sb (''cmd package resolve-activity --brief '' @ packageName) tr1 of
                (Inl error, tr2) \<Rightarrow> (Inl (rethrow error), tr2)
              | (Inr output, tr2) \<Rightarrow>
                  (case match_single_token_line output of
                     None \<Rightarrow>
                       (Inl (rethrow (new_error ''AppError''
                               (''Could not find main activity for '' @ packageName))), tr2)
                   | Some activity \<Rightarrow>
                       (case executeShellCommand sb (''am start -n '' @ activity) tr2 of
                          (Inl error, tr3) \<Rightarrow> (Inl (rethrow error), tr3)
                        | (Inr started, tr3) \<Rightarrow> (Inr True, tr3))))))"

section \<open>AndroidSandbox\<close>

text \<open>
  The HTTP client is outside the repository. A call either resolves to a response
  (status and body) or is rejected with an error that may carry a response (a status the
  client refuses), or only the request (nothing came back), or neither (the request could
  not be set up).
\<close>

datatype axios_response = Response (resp_status: int) (resp_data: jsval)

datatype axios_error =
  AxiosError (ae_response: "axios_response option") (ae_request: bool) (ae_message: string)

type_synonym axios_outcome = "axios_error + axios_response"

type_synonym headers = "(string \<times> string) list"

datatype input_payload =
    TapPayload int int
  | SwipePayload int int int int int
  | LongPressPayload int int int
  | PinchPayload int int int string
  | TextPayload string
  | KeyPayload string
  | ComboPayload "string list"

record device_payload =
  p_resolution :: "int list"
  p_dpi :: int
  p_memory_mb :: int
  p_session_id :: string
  p_android_version :: string
  p_device_model :: string

text \<open>The replies of the service: by URL, body, headers and timeout in milliseconds.\<close>

record http =
  post_devices :: "string \<Rightarrow> device_payload \<Rightarrow> headers \<Rightarrow> nat \<Rightarrow> axios_outcome"
  post_input :: "string \<Rightarrow> input_payload \<Rightarrow> headers \<Rightarrow> nat \<Rightarrow> axios_outcome"
  post_shell :: "string \<Rightarrow> string \<Rightarrow> headers \<Rightarrow> nat \<Rightarrow> axios_outcome"
  get_json :: "string \<Rightarrow> headers \<Rightarrow> nat \<Rightarrow> axios_outcome"
  get_arraybuffer :: "jsval \<Rightarrow> nat \<Rightarrow> axios_error + (int \<times> byte list)"

record android_sandbox =
  api_key :: string
  resolution :: "int list"
  dpi :: int
  memory_mb :: int
  device_id :: jsval

definition nullish :: "jsval \<Rightarrow> bool" where
  "nullish v = (v = JUndefined \<or> v = JNull)"

text \<open>\<open>v.k\<close> for a value already known not to be \<open>null\<close> or \<open>undefined\<close>.\<close>

definition field :: "jsval \<Rightarrow> string \<Rightarrow> jsval" where
  "field v k = (case get_prop v k of None \<Rightarrow> JUndefined | Some x \<Rightarrow> x)"

definition read_error :: "string \<Rightarrow> js_error" where
  "read_error k = JsError ''TypeError'' (''Cannot read properties of undefined (reading '' @ k @ '')'')"

definition json_headers :: "android_sandbox \<Rightarrow> headers" where
  "json_headers sb =
     [(''Authorization'', ''Bearer '' @ api_key sb), (''Content-Type'', ''application/json'')]"

definition accept_headers :: "android_sandbox \<Rightarrow> headers" where
  "accept_headers sb =
     [(''Authorization'', ''Bearer '' @ api_key sb), (''Accept'', ''application/json'')]"

definition device_url :: "android_sandbox \<Rightarrow> string \<Rightarrow> string" where
  "device_url sb suffix = ''https://api.airtap.ai/v1/devices/'' @ to_string (device_id sb) @ suffix"

text \<open>
  The message both the non-201 branch and the handler build from a response: the status,
  replaced by the body's \<open>error\<close> field when the body and the field are truthy.
\<close>

definition status_error_msg :: "axios_response \<Rightarrow> string" where
  "status_error_msg r =
     (if truthy (resp_data r) \<and> truthy (field (resp_data r) ''error'')
      then ''Failed to initialize device: '' @ to_string (field (resp_data r) ''error'')
      else ''Failed to initialize device: '' @ show_int (resp_status r))"

text \<open>
  What the \<open>catch\<close> of \<open>_initializeDevice\<close> receives: a rejection of the HTTP call, or an
  error thrown inside the \<open>try\<close> block (it has no \<open>response\<close> and no \<open>request\<close>).
\<close>

datatype thrown = Rejected axios_error | Thrown js_error

fun init_catch :: "thrown \<Rightarrow> js_error" where
  "init_catch (Rejected e) =
     (case ae_response e of
        Some r \<Rightarrow> new_error ''ConnectionError'' (status_error_msg r)
      | None \<Rightarrow>
          (if ae_request e then
             new_error ''ConnectionError'' ''Connection error when initializing device: No response received''
           else
             new_error ''ConnectionError'' (''Connection error when initializing device: '' @ ae_message e)))"
| "init_catch (Thrown e) =
     new_error ''ConnectionError'' (''Connection error when initializing device: '' @ err_message e)"

text \<open>The awaited \<open>axios.post\<close> of \<open>_initializeDevice\<close>, with the payload and headers it builds.\<close>

definition provision :: "http \<Rightarrow> string \<Rightarrow> android_sandbox \<Rightarrow> axios_outcome" where
  "provision h session_id sb =
     (let payload = \<lparr>p_resolution = resolution sb, p_dpi = dpi sb, p_memory_mb = memory_mb sb,
                     p_session_id = session_id, p_android_version = ''13'',
                     p_device_model = ''Pixel 4''\<rparr>;
          api_url = ''https://api.airtap.ai/v1/devices'';
          headers = [(''Authorization'', ''Bearer '' @ api_key sb),
                     (''Content-Type'', ''application/json''), (''X-Client-Version'', ''1.0.0'')]
      in post_devices h api_url payload headers 60000)"

definition initializeDevice ::
  "http \<Rightarrow> string \<Rightarrow> android_sandbox \<Rightarrow> (js_error + jsval) \<times> android_sandbox" where
  "initializeDevice h session_id sb =
     (case provision h session_id sb of
        Inl e \<Rightarrow> (Inl (init_catch (Rejected e)), sb)
      | Inr response \<Rightarrow>
          (if resp_status response = 201 then
             (let result = resp_data response in
              if nullish result then (Inl (init_catch (Thrown (read_error ''device_id''))), sb)
              else
                (let device_id' = field result ''device_id'' in
                 if \<not> truthy device_id' then
                   (Inl (init_catch (Thrown (new_error ''ConnectionError''
                           ''Missing device_id in API response''))), sb)
                 else (Inr device_id', sb\<lparr>device_id := device_id'\<rparr>)))
           else
             (Inl (init_catch (Thrown (new_error ''ConnectionError'' (status_error_msg response)))),
              sb)))"

text \<open>
  The eight gesture and keyboard methods share one body: post, warn on a status other
  than 200, log the message of a rejection; nothing is rethrown and nothing is returned.
\<close>

definition settle_input :: "string \<Rightarrow> string \<Rightarrow> axios_outcome \<Rightarrow> (js_error + unit) \<times> console list" where
  "settle_input operation doing outcome =
     (case outcome of
        Inr response \<Rightarrow>
          (Inr (),
           if resp_status response \<noteq> 200 then
             [Warn (''Warning: '' @ operation @ '' operation returned status code ''
                    @ show_int (resp_status response))]
           else [])
      | Inl e \<Rightarrow> (Inr (), [Error (''Error '' @ doing @ '': '' @ ae_message e)]))"

definition tap :: "http \<Rightarrow> android_sandbox \<Rightarrow> int \<Rightarrow> int \<Rightarrow> (js_error + unit) \<times> console list" where
  "tap h sb x y =
     settle_input ''Tap'' ''performing tap''
       (post_input h (device_url sb ''/input/tap'') (TapPayload x y) (json_headers sb) 10000)"

definition doubleTap :: "http \<Rightarrow> android_sandbox \<Rightarrow> int \<Rightarrow> int \<Rightarrow> (js_error + unit) \<times> console list" where
  "doubleTap h sb x y =
     settle_input ''Double tap'' ''performing double tap''
       (post_input h (device_url sb ''/input/double_tap'') (TapPayload x y) (json_headers sb) 10000)"

definition swipe ::
  "http \<Rightarrow> android_sandbox \<Rightarrow> int \<times> int \<Rightarrow> int \<times> int \<Rightarrow> int \<Rightarrow> (js_error + unit) \<times> console list" where
  "swipe h sb start end' duration_ms =
     settle_input ''Swipe'' ''performing swipe''
       (post_input h (device_url sb ''/input/swipe'')
          (SwipePayload (fst start) (snd start) (fst end') (snd end') duration_ms)
          (json_headers sb) 10000)"

definition longPress ::
  "http \<Rightarrow> android_sandbox \<Rightarrow> int \<Rightarrow> int \<Rightarrow> int \<Rightarrow> (js_error + unit) \<times> console list" where
  "longPress h sb x y duration_ms =
     settle_input ''Long press'' ''performing long press''
       (post_input h (device_url sb ''/input/long_press'') (LongPressPayload x y duration_ms)
          (json_headers sb) 10000)"

definition pinchOut ::
  "http \<Rightarrow> android_sandbox \<Rightarrow> int \<times> int \<Rightarrow> int \<Rightarrow> (js_error + unit) \<times> console list" where
  "pinchOut h sb center distance =
     settle_input ''Pinch out'' ''performing pinch out''
       (post_input h (device_url sb ''/input/pinch'')
          (PinchPayload (fst center) (snd center) distance ''out'') (json_headers sb) 10000)"

definition typeText :: "http \<Rightarrow> android_sandbox \<Rightarrow> string \<Rightarrow> (js_error + unit) \<times> console list" where
  "typeText h sb text' =
     settle_input ''Type text'' ''typing text''
       (post_input h (device_url sb ''/input/text'') (TextPayload text') (json_headers sb) 15000)"

definition pressKey :: "http \<Rightarrow> android_sandbox \<Rightarrow> string \<Rightarrow> (js_error + unit) \<times> console list" where
  "pressKey h sb key =
     settle_input ''Press key'' ''pressing key''
       (post_input h (device_url sb ''/input/key'') (KeyPayload key) (json_headers sb) 10000)"

definition pressCombo :: "http \<Rightarrow> android_sandbox \<Rightarrow> string list \<Rightarrow> (js_error + unit) \<times> console list" where
  "pressCombo h sb keys =
     settle_input ''Press combo'' ''pressing key combination''
       (post_input h (device_url sb ''/input/combo'') (ComboPayload keys) (json_headers sb) 10000)"

text \<open>
  \<open>screenshot\<close> returns a buffer, or \<open>undefined\<close> (\<open>None\<close>) where the method falls off
  its end: a 200 response whose body has neither \<open>image_data\<close> nor \<open>image_url\<close>.
\<close>

definition screenshot ::
  "http \<Rightarrow> android_sandbox \<Rightarrow> (js_error + byte list option) \<times> console list" where
  "screenshot h sb =
     (let failed = (\<lambda>m. (Inr (Some []), [Error (''Error taking screenshot: '' @ m)])) in
      case get_json h (device_url sb ''/screenshot'') (accept_headers sb) 30000 of
        Inl e \<Rightarrow> failed (ae_message e)
      | Inr response \<Rightarrow>
          (if resp_status response = 200 then
             (let result = resp_data response in
              if nullish result then failed (err_message (read_error ''image_data''))
              else if truthy (field result ''image_data'') then
                (case Buffer_from_base64 (field result ''image_data'') of
                   Inl e \<Rightarrow> failed (err_message e)
                 | Inr buffer \<Rightarrow> (Inr (Some buffer), []))
              else if truthy (field result ''image_url'') then
                (case get_arraybuffer h (field result ''image_url'') 30000 of
                   Inl e \<Rightarrow> failed (ae_message e)
                 | Inr (image_status, image_bytes) \<Rightarrow>
                     (if image_status = 200 then (Inr (Some image_bytes), [])
                      else
                        (Inr (Some []),
                         [Warn (''Warning: Failed to download screenshot from URL: ''
                                @ show_int image_status)])))
              else (Inr None, []))
           else
             (Inr (Some []),
              [Warn (''Warning: Screenshot operation returned status code ''
                     @ show_int (resp_status response))])))"

definition shell ::
  "http \<Rightarrow> android_sandbox \<Rightarrow> string \<Rightarrow> (js_error + jsval) \<times> console list" where
  "shell h sb command =
     (case post_shell h (device_url sb ''/shell'') command (json_headers sb) 30000 of
        Inl e \<Rightarrow> (Inr (JStr []), [Error (''Error executing shell command: '' @ ae_message e)])
      | Inr response \<Rightarrow>
          (if resp_status response = 200 then
             (let result = resp_data response in
              if nullish result then
                (Inr (JStr []),
                 [Error (''Error executing shell command: '' @ err_message (read_error ''output''))])
              else
                (Inr (if truthy (field result ''output'') then field result ''output'' else JStr []), []))
           else
             (Inr (JStr []),
              [Warn (''Warning: Shell command operation returned status code ''
                     @ show_int (resp_status response))])))"

text \<open>
  \<open>waitForApp\<close> reads the clock. The environment gives, for the k-th poll, its reply
  and how long the call takes, and for the k-th \<open>wait(d)\<close> by how much
  \<open>Date.now()\<close> has advanced when the timer resumes the loop: a timer may fire late, and
  on the millisecond clock it may fire early. \<open>clock_start\<close> is \<open>Date.now()\<close> on entry,
  and the clock does not advance between two awaits. The loop returns its result, the
  times at which it issued a poll, and the console output; it need not return when the
  clock does not advance, so its value is an option.
\<close>

record poll_env =
  poll_reply :: "nat \<Rightarrow> string \<Rightarrow> headers \<Rightarrow> nat \<Rightarrow> axios_outcome"
  poll_latency :: "nat \<Rightarrow> nat"
  wait_elapsed :: "nat \<Rightarrow> nat \<Rightarrow> nat"
  clock_start :: nat

text \<open>One pass through the \<open>try\<close> of the loop body: whether it returns true, and its output.\<close>

definition poll_once :: "axios_outcome \<Rightarrow> string \<Rightarrow> bool \<times> console list" where
  "poll_once outcome package_name =
     (case outcome of
        Inl e \<Rightarrow> (False, [Error (''Error checking current app: '' @ ae_message e)])
      | Inr response \<Rightarrow>
          (if resp_status response = 200 then
             (let result = resp_data response in
              if nullish result then
                (False, [Error (''Error checking current app: ''
                                @ err_message (read_error ''package_name''))])
              else
                (let current_app = (if truthy (field result ''package_name'')
                                    then field result ''package_name'' else JStr [])
                 in (current_app = JStr package_name, [])))
           else
             (False, [Warn (''Warning: Current app check returned status code ''
                            @ show_int (resp_status response))])))"

partial_function (option) waitForApp_loop ::
  "poll_env \<Rightarrow> android_sandbox \<Rightarrow> string \<Rightarrow> nat \<Rightarrow> nat \<Rightarrow> nat list \<Rightarrow> console list
     \<Rightarrow> ((js_error + bool) \<times> nat list \<times> console list) option" where
  "waitForApp_loop env sb package_name end_time now polls out =
     (if now < end_time then
        (case poll_once (poll_reply env (length polls) (device_url sb ''/current_app'')
                           (accept_headers sb) 10000) package_name of
           (matched, msgs) \<Rightarrow>
             if matched then Some (Inr True, polls @ [now], out @ msgs)
             else
               waitForApp_loop env sb package_name end_time
                 (now + poll_latency env (length polls) + wait_elapsed env (length polls) 500)
                 (polls @ [now]) (out @ msgs))
      else Some (Inr False, polls, out))"

definition waitForApp ::
  "poll_env \<Rightarrow> android_sandbox \<Rightarrow> string \<Rightarrow> nat
     \<Rightarrow> ((js_error + bool) \<times> nat list \<times> console list) option" where
  "waitForApp env sb package_name timeout_ms =
     waitForApp_loop env sb package_name (clock_start env + timeout_ms) (clock_start env) [] []"

text \<open>
  What a poll reports, read off the reply alone: the foreground package named by a 200
  response with a body (the empty string when the body names none), and nothing for any
  other reply. The k-th poll reports a package when its reply names exactly that package.
\<close>

definition reported_app :: "axios_outcome \<Rightarrow> jsval option" where
  "reported_app outcome =
     (case outcome of
        Inl e \<Rightarrow> None
      | Inr response \<Rightarrow>
          (if resp_status response = 200 \<and> \<not> nullish (resp_data response) then
             Some (if truthy (field (resp_data response) ''package_name'')
                   then field (resp_data response) ''package_name'' else JStr [])
           else None))"

definition poll_reports :: "poll_env \<Rightarrow> android_sandbox \<Rightarrow> nat \<Rightarrow> string \<Rightarrow> bool" where
  "poll_reports env sb k package_name =
     (reported_app (poll_reply env k (device_url sb ''/current_app'') (accept_headers sb) 10000)
        = Some (JStr package_name))"

text \<open>
  What the loop does with a timeout of 1000 ms when every timer runs for at least 334 ms:
  the result and the times of the polls, in closed form.
\<close>

definition polls_1000 :: "poll_env \<Rightarrow> android_sandbox \<Rightarrow> string \<Rightarrow> (js_error + bool) \<times> nat list" where
  "polls_1000 env sb p =
     (let s = clock_start env;
          t1 = s + poll_latency env 0 + wait_elapsed env 0 500;
          t2 = t1 + poll_latency env 1 + wait_elapsed env 1 500
      in
      if poll_reports env sb 0 p then (Inr True, [s])
      else if \<not> t1 < s + 1000 then (Inr False, [s])
      else if poll_reports env sb 1 p then (Inr True, [s, t1])
      else if \<not> t2 < s + 1000 then (Inr False, [s, t1])
      else (Inr (poll_reports env sb 2 p), [s, t1, t2]))"

text \<open>Whether a call counts as failed: it was rejected, or answered with a status other than 200.\<close>

definition failed_outcome :: "axios_outcome \<Rightarrow> bool" where
  "failed_outcome outcome = (case outcome of Inl e \<Rightarrow> True | Inr response \<Rightarrow> resp_status response \<noteq> 200)"

section \<open>Example inputs\<close>

definition idle_stream :: stream_manager where
  "idle_stream = \<lparr>streamId = None, streamUrl = JNull, isStreaming = False\<rparr>"

text \<open>
  An example platform for the witnesses: paths name files and directories in a map;
  a file is written only into an existing directory and never over a directory;
  \<open>mkdirSync\<close> creates the missing directories up the path and fails when it meets a
  regular file; a file reads back as it was written.
\<close>

datatype fsnode = File "byte list" | Dir

type_synonym fsmap = "string \<Rightarrow> fsnode option"

definition parent_of :: "string \<Rightarrow> string" where
  "parent_of p =
     (let d = rev (drop 1 (dropWhile (\<lambda>c. c \<noteq> CHR ''/'') (rev p)))
      in if d = [] then (if starts_with p ''/'' then ''/'' else ''.'') else d)"

fun mkdirp :: "nat \<Rightarrow> fsmap \<Rightarrow> string \<Rightarrow> (js_error + unit) \<times> fsmap" where
  "mkdirp 0 f dir =
     (if f dir = Some Dir then (Inr (), f)
      else (Inl (JsError ''Error'' (''ENOENT: no such file or directory, mkdir '' @ dir)), f))"
| "mkdirp (Suc n) f dir =
     (case f dir of
        Some Dir \<Rightarrow> (Inr (), f)
      | Some (File bs) \<Rightarrow> (Inl (JsError ''Error'' (''ENOTDIR: not a directory, mkdir '' @ dir)), f)
      | None \<Rightarrow>
          (case mkdirp n f (parent_of dir) of
             (Inl e, f') \<Rightarrow> (Inl e, f')
           | (Inr made, f') \<Rightarrow> (Inr (), f'(dir \<mapsto> Dir))))"

definition example_fs :: "fsmap node_fs" where
  "example_fs =
     \<lparr>existsSync = (\<lambda>f p. f p \<noteq> None),
      readFileSync = (\<lambda>f p.
         case f p of
           Some (File bs) \<Rightarrow> Inr bs
         | Some Dir \<Rightarrow> Inl (JsError ''Error'' ''EISDIR: illegal operation on a directory, read'')
         | None \<Rightarrow> Inl (JsError ''Error'' (''ENOENT: no such file or directory, open '' @ p))),
      mkdirSync = (\<lambda>f dir. mkdirp (length dir) f dir),
      writeFileSync = (\<lambda>f p bs.
         if f (parent_of p) = Some Dir \<and> f p \<noteq> Some Dir \<and> p \<noteq> []
         then (Inr (), f(p \<mapsto> File bs))
         else (Inl (JsError ''Error'' (''ENOENT: no such file or directory, open '' @ p)), f)),
      path_dirname = parent_of\<rparr>"

definition example_world :: "fsmap world" where
  "example_world =
     \<lparr>trace = [],
      localfs = [''/'' \<mapsto> Dir, ''/tmp'' \<mapsto> Dir, ''/tmp/a.bin'' \<mapsto> File [72, 105, 33, 10]]\<rparr>"

definition fresh_sandbox :: android_sandbox where
  "fresh_sandbox =
     \<lparr>api_key = ''key'', resolution = [1080, 1920], dpi = 320, memory_mb = 2048, device_id = JNull\<rparr>"

text \<open>A service that answers every call with the same outcome (and fails every download).\<close>

definition http_of :: "axios_outcome \<Rightarrow> http" where
  "http_of outcome =
     \<lparr>post_devices = (\<lambda>url payload hs t. outcome),
      post_input = (\<lambda>url payload hs t. outcome),
      post_shell = (\<lambda>url command hs t. outcome),
      get_json = (\<lambda>url hs t. outcome),
      get_arraybuffer = (\<lambda>url t. Inl (AxiosError None True ''timeout of 30000ms exceeded''))\<rparr>"

text \<open>
  A service whose screenshot reply carries only a URL, and whose download of that URL
  ends as given.
\<close>

definition url_only_http :: "axios_error + (int \<times> byte list) \<Rightarrow> http" where
  "url_only_http download =
     \<lparr>post_devices = (\<lambda>url payload hs t. Inr (Response 200 JNull)),
      post_input = (\<lambda>url payload hs t. Inr (Response 200 JNull)),
      post_shell = (\<lambda>url command hs t. Inr (Response 200 JNull)),
      get_json = (\<lambda>url hs t. Inr (Response 200 (JObj [(''image_url'', JStr ''https://cdn/shot.png'')]))),
      get_arraybuffer = (\<lambda>url t. download)\<rparr>"

definition no_reply :: axios_outcome where
  "no_reply = Inl (AxiosError None True ''timeout of 10000ms exceeded'')"

text \<open>
  Two environments for \<open>waitForApp\<close>. In the first every poll is answered at once and
  names another app, and every timer resumes the loop 1 ms early on the clock. In the
  second the first poll is rejected and the second names the awaited app.
\<close>

definition other_app_env :: poll_env where
  "other_app_env =
     \<lparr>poll_reply = (\<lambda>k url hs t. Inr (Response 200 (JObj [(''package_name'', JStr ''com.other'')]))),
      poll_latency = (\<lambda>k. 0), wait_elapsed = (\<lambda>k d. d - 1), clock_start = 0\<rparr>"

definition second_poll_env :: poll_env where
  "second_poll_env =
     \<lparr>poll_reply = (\<lambda>k url hs t. if k = 0 then no_reply
                                  else Inr (Response 200 (JObj [(''package_name'', JStr ''pkg.x'')]))),
      poll_latency = (\<lambda>k. 20), wait_elapsed = (\<lambda>k d. d + 3), clock_start = 1000\<rparr>"

definition idle_recorder :: record_manager where
  "idle_recorder = \<lparr>recordingId = None, isRecording = False, recordingStartTime = None\<rparr>"

definition active_recorder :: record_manager where
  "active_recorder = \<lparr>recordingId = Some ''r-1'', isRecording = True, recordingStartTime = Some 0\<rparr>"

definition stopped_recorder :: record_manager where
  "stopped_recorder = \<lparr>recordingId = Some ''r-1'', isRecording = False, recordingStartTime = Some 0\<rparr>"

definition default_options :: record_options where
  "default_options = \<lparr>width = 1280, height = 720, bitRate = 8, audio = True, timeLimit = 180\<rparr>"

text \<open>A device on which every command succeeds and prints that nothing exists.\<close>

definition missing_file_sandbox :: sandbox where
  "missing_file_sandbox =
     \<lparr>shell_reply = (\<lambda>tr cmd. Inr ''not exists''),
      get_reply = (\<lambda>tr endpoint params. Inr (JObj [])),
      post_reply = (\<lambda>tr endpoint body. Inr (JObj [])),
      delete_reply = (\<lambda>tr endpoint. Inr (JObj [])),
      deviceId = JStr ''dev-1''\<rparr>"

text \<open>
  A device with \<open>com.foo.extra\<close> installed and \<open>com.foo\<close> not: the package list
  filtered by \<open>com.foo\<close> prints the one package whose name contains it.
\<close>

definition extra_only_sandbox :: sandbox where
  "extra_only_sandbox =
     \<lparr>shell_reply = (\<lambda>tr cmd. if cmd = ''pm list packages com.foo''
                               then Inr ''package:com.foo.extra\<newline>'' else Inr []),
      get_reply = (\<lambda>tr endpoint params. Inr (JObj [])),
      post_reply = (\<lambda>tr endpoint body. Inr (JObj [])),
      delete_reply = (\<lambda>tr endpoint. Inr (JObj [])),
      deviceId = JStr ''dev-1''\<rparr>"

text \<open>A device with \<open>com.foo\<close> installed whose activity query prints a sentence.\<close>

definition no_activity_sandbox :: sandbox where
  "no_activity_sandbox =
     \<lparr>shell_reply = (\<lambda>tr cmd. if cmd = ''pm list packages com.foo''
                               then Inr ''package:com.foo\<newline>'' else Inr ''No activity found\<newline>''),
      get_reply = (\<lambda>tr endpoint params. Inr (JObj [])),
      post_reply = (\<lambda>tr endpoint body. Inr (JObj [])),
      delete_reply = (\<lambda>tr endpoint. Inr (JObj [])),
      deviceId = JStr ''dev-1''\<rparr>"

text \<open>
  The specification's reading of \<open>isInstalled\<close>, for comparison with the code: the
  output, split at white space, has the token \<open>package:<pkg>\<close>.
\<close>

definition has_exact_token :: "string \<Rightarrow> string \<Rightarrow> bool" where
  "has_exact_token output packageName = (''package:'' @ packageName \<in> set (tokens output))"

section \<open>Verified properties\<close>

subsection \<open>StreamManager.stop\<close>

lemma stream_stop_idle:
  "\<not> isStreaming m \<Longrightarrow> stream_stop sb m tr = (Inr True, m, tr)"
  by (simp add: stream_stop_def)

lemma stream_stop_rejected:
  assumes "isStreaming m"
    and "delete_reply sb tr (''/stream/'' @ id_str (streamId m)) = Inl e"
  shows "stream_stop sb m tr =
     (Inl (JsError ''StreamError'' (''Failed to stop stream: '' @ err_message e)), m,
      tr @ [ApiDelete (''/stream/'' @ id_str (streamId m))])"
  using assms
  by (simp add: stream_stop_def apiClient_delete_def new_error_def exceptions_exports_def)

lemma stream_stop_resolved:
  assumes "isStreaming m"
    and "delete_reply sb tr (''/stream/'' @ id_str (streamId m)) = Inr v"
  shows "stream_stop sb m tr =
     (Inr True, m\<lparr>isStreaming := False, streamUrl := JNull\<rparr>,
      tr @ [ApiDelete (''/stream/'' @ id_str (streamId m))])"
  using assms by (simp add: stream_stop_def apiClient_delete_def)

text \<open>
  C1, as stated, fails: with a stream running and the teardown request rejected, stop
  raises a StreamError, and afterwards the manager is still streaming and still holds
  its stream id and url.
\<close>

theorem stream_stop_failure_keeps_streaming:
  "stream_stop failing_sandbox live_stream [] =
     (Inl (JsError ''StreamError'' ''Failed to stop stream: socket hang up''),
      \<lparr>streamId = Some ''s-1'', streamUrl = JStr ''wss://stream/s-1'', isStreaming = True\<rparr>,
      [ApiDelete ''/stream/s-1''])"
  by (simp add: stream_stop_def apiClient_delete_def new_error_def exceptions_exports_def
      failing_sandbox_def live_stream_def id_str_def)

text \<open>
  C1, amended: stop on an idle manager returns true, changes nothing and issues no
  request. On a streaming manager it issues exactly one delete for the stream id; when
  that request resolves (whatever the body), stop returns true with the url cleared and
  the manager idle; when it is rejected, stop raises a StreamError and the manager is
  unchanged.
\<close>

theorem stream_stop_policy:
  "(\<not> isStreaming m \<longrightarrow> stream_stop sb m tr = (Inr True, m, tr))
   \<and> (isStreaming m \<longrightarrow>
        (case delete_reply sb tr (''/stream/'' @ id_str (streamId m)) of
           Inr v \<Rightarrow>
             (case stream_stop sb m tr of
                (result, m', tr') \<Rightarrow>
                  result = Inr True \<and> \<not> isStreaming m' \<and> streamUrl m' = JNull
                  \<and> tr' = tr @ [ApiDelete (''/stream/'' @ id_str (streamId m))])
         | Inl e \<Rightarrow>
             stream_stop sb m tr =
               (Inl (JsError ''StreamError'' (''Failed to stop stream: '' @ err_message e)), m,
                tr @ [ApiDelete (''/stream/'' @ id_str (streamId m))])))"
  by (auto simp: stream_stop_idle stream_stop_rejected stream_stop_resolved split: sum.splits)

theorem stream_stop_policy_witness:
  "\<not> isStreaming idle_stream
   \<and> stream_stop failing_sandbox idle_stream [] = (Inr True, idle_stream, [])
   \<and> isStreaming live_stream
   \<and> delete_reply (storing_sandbox (JStr ''dev-1'')) [] ''/stream/s-1'' = Inr (JObj [])
   \<and> stream_stop (storing_sandbox (JStr ''dev-1'')) live_stream [] =
       (Inr True, live_stream\<lparr>isStreaming := False, streamUrl := JNull\<rparr>, [ApiDelete ''/stream/s-1''])
   \<and> delete_reply failing_sandbox [] ''/stream/s-1'' = Inl (JsError ''Error'' ''socket hang up'')
   \<and> stream_stop failing_sandbox live_stream [] =
       (Inl (JsError ''StreamError'' ''Failed to stop stream: socket hang up''), live_stream,
        [ApiDelete ''/stream/s-1''])"
  using stream_stop_policy [of idle_stream failing_sandbox "[]"]
    stream_stop_policy [of live_stream "storing_sandbox (JStr ''dev-1'')" "[]"]
    stream_stop_policy [of live_stream failing_sandbox "[]"]
  by (simp add: idle_stream_def live_stream_def storing_sandbox_def failing_sandbox_def id_str_def
      stream_stop_def apiClient_delete_def)

subsection \<open>FileManager: the base64 codec and the push/pull round trip\<close>

lemma b64_table:
  "\<forall>i \<in> set [0..<64]. unbase64 (b64_char i) = Some i \<and> b64_char i \<noteq> CHR ''=''"
  by code_simp

lemma b64_char_valid: "i < 64 \<Longrightarrow> unbase64 (b64_char i) = Some i"
  using b64_table by simp

lemma b64_char_not_pad: "i < 64 \<Longrightarrow> b64_char i \<noteq> CHR ''=''"
  using b64_table by simp

lemma byte_bound: "unat (a :: byte) < 256"
  using unsigned_less [of a, where 'a = nat] by simp

lemma sextet_bounds:
  "x < 256 \<Longrightarrow> x div 4 < (64::nat)"
  "y < 256 \<Longrightarrow> x mod 4 * 16 + y div 16 < (64::nat)"
  "z < 256 \<Longrightarrow> y mod 16 * 4 + z div 64 < (64::nat)"
  "z mod 64 < (64::nat)"
  "x mod 4 * 16 < (64::nat)"
  "y mod 16 * 4 < (64::nat)"
  by simp_all

lemma from_base64_group:
  assumes "i1 < 64" "i2 < 64" "i3 < 64" "i4 < 64"
  shows "from_base64 (b64_char i1 # b64_char i2 # b64_char i3 # b64_char i4 # s) =
     [of_nat (i1 * 4 + i2 div 16), of_nat (i2 mod 16 * 16 + i3 div 4), of_nat (i3 mod 4 * 64 + i4)]
     @ from_base64 s"
  using assms by (simp add: from_base64_def b64_char_valid b64_char_not_pad)

lemma regroup_first: "y < 256 \<Longrightarrow> x div 4 * 4 + (x mod 4 * 16 + y div 16) div 16 = (x::nat)"
  by simp

lemma regroup_second:
  "y < 256 \<Longrightarrow> z < 256 \<Longrightarrow>
   (x mod 4 * 16 + y div 16) mod 16 * 16 + (y mod 16 * 4 + z div 64) div 4 = (y::nat)"
  by simp

lemma regroup_third: "z < 256 \<Longrightarrow> (y mod 16 * 4 + z div 64) mod 4 * 64 + z mod 64 = (z::nat)"
  by simp

lemma base64_roundtrip: "from_base64 (toString_base64 bs) = bs"
proof (induction bs rule: toString_base64.induct)
  case 1
  show ?case by (simp add: from_base64_def)
next
  case (2 a)
  show ?case using byte_bound [of a]
    by (simp add: from_base64_def b64_char_valid b64_char_not_pad sextet_bounds)
next
  case (3 a b)
  show ?case using byte_bound [of a] byte_bound [of b]
    by (simp add: from_base64_def b64_char_valid b64_char_not_pad sextet_bounds)
next
  case (4 a b c rest)
  have "from_base64 (toString_base64 (a # b # c # rest)) =
     [of_nat (unat a), of_nat (unat b), of_nat (unat c)] @ from_base64 (toString_base64 rest)"
    using byte_bound [of a] byte_bound [of b] byte_bound [of c]
    by (simp add: from_base64_group sextet_bounds regroup_first regroup_second regroup_third)
  then show ?case using 4 by simp
qed

lemma stored_content_last:
  "stored_content
     (tr @ [ApiPost ''/files/push''
              (JObj [(''deviceId'', d), (''path'', JStr p), (''content'', c)])]) p = c"
  by (simp add: stored_content_def pushed_content_def List.map_filter_simps)

lemma pushFile_missing:
  "\<not> existsSync nfs (localfs w) localPath \<Longrightarrow>
   pushFile sb nfs localPath remotePath w =
     (Inl (JsError ''FileError'' (''Failed to push file '' @ localPath @ '' to '' @ remotePath
            @ '': Local file '' @ localPath @ '' does not exist'')), w)"
  by (simp add: pushFile_def new_error_def exceptions_exports_def)

lemma pushFile_stores:
  assumes "existsSync nfs (localfs w) localPath"
    and "readFileSync nfs (localfs w) localPath = Inr bs"
  shows "pushFile (storing_sandbox dev) nfs localPath remotePath w =
     (Inr True, w\<lparr>trace := trace w @ [ApiPost ''/files/push''
         (JObj [(''deviceId'', dev), (''path'', JStr remotePath),
                (''content'', JStr (toString_base64 bs))])]\<rparr>)"
  using assms
  by (simp add: pushFile_def apiClient_post_def storing_sandbox_def)

lemma FileError_bound: "new_error ''FileError'' msg = JsError ''FileError'' msg"
  by (simp add: new_error_def exceptions_exports_def)

lemma pullFile_after_push:
  assumes "trace w = tr @ [ApiPost ''/files/push''
         (JObj [(''deviceId'', d), (''path'', JStr remotePath),
                (''content'', JStr (toString_base64 bs))])]"
  shows "pullFile (storing_sandbox dev) nfs remotePath localDest w =
     (case (if existsSync nfs (localfs w) (path_dirname nfs localDest) then (Inr (), localfs w)
            else mkdirSync nfs (localfs w) (path_dirname nfs localDest)) of
        (Inl e, f1) \<Rightarrow>
          (Inl (JsError ''FileError'' (''Failed to pull file '' @ remotePath @ '' to '' @ localDest
                  @ '': '' @ err_message e)),
           w\<lparr>trace := trace w @ [ApiGet ''/files/pull''
                  (JObj [(''deviceId'', dev), (''path'', JStr remotePath)])], localfs := f1\<rparr>)
      | (Inr made, f1) \<Rightarrow>
          (case writeFileSync nfs f1 localDest bs of
             (Inl e, f2) \<Rightarrow>
               (Inl (JsError ''FileError'' (''Failed to pull file '' @ remotePath @ '' to '' @ localDest
                       @ '': '' @ err_message e)),
                w\<lparr>trace := trace w @ [ApiGet ''/files/pull''
                       (JObj [(''deviceId'', dev), (''path'', JStr remotePath)])], localfs := f2\<rparr>)
           | (Inr written, f2) \<Rightarrow>
               (Inr True,
                w\<lparr>trace := trace w @ [ApiGet ''/files/pull''
                       (JObj [(''deviceId'', dev), (''path'', JStr remotePath)])], localfs := f2\<rparr>)))"
  using assms
  by (simp add: pullFile_def apiClient_get_def storing_sandbox_def stored_content_last
      Buffer_from_base64_def base64_roundtrip ensure_dir_def Let_def FileError_bound
      split: prod.splits sum.splits)

text \<open>
  C9: on every file system, \<open>pushFile\<close> of a path where nothing exists locally fails
  with a FileError and sends nothing, and so does \<open>pushFile\<close> of a path that cannot be
  read. When the local file exists and reads as \<open>bs\<close>,
  pushing it to the transport that stores and returns what was pushed succeeds, and a
  pull of the same remote path ensures the directory of the destination and then hands
  \<open>writeFileSync\<close> exactly \<open>bs\<close> for the destination: decoding the base64 text undoes
  the encoding. The pull fails with a FileError when the directory cannot be made or the
  file cannot be written, and succeeds otherwise; on a file system where a file reads
  back as it was written, the destination then reads back as \<open>bs\<close>.
\<close>

theorem push_pull_roundtrip:
  "(\<not> existsSync nfs (localfs w) localPath \<longrightarrow>
      pushFile sb nfs localPath remotePath w =
        (Inl (JsError ''FileError'' (''Failed to push file '' @ localPath @ '' to '' @ remotePath
               @ '': Local file '' @ localPath @ '' does not exist'')), w))
   \<and> (existsSync nfs (localfs w) localPath \<and> readFileSync nfs (localfs w) localPath = Inl err \<longrightarrow>
      pushFile sb nfs localPath remotePath w =
        (Inl (JsError ''FileError'' (''Failed to push file '' @ localPath @ '' to '' @ remotePath
               @ '': '' @ err_message err)), w))
   \<and> (existsSync nfs (localfs w) localPath \<and> readFileSync nfs (localfs w) localPath = Inr bs \<longrightarrow>
        (let w1 = w\<lparr>trace := trace w @ [ApiPost ''/files/push''
                        (JObj [(''deviceId'', dev), (''path'', JStr remotePath),
                               (''content'', JStr (toString_base64 bs))])]\<rparr>;
             tr2 = trace w1 @ [ApiGet ''/files/pull''
                                 (JObj [(''deviceId'', dev), (''path'', JStr remotePath)])]
         in
         pushFile (storing_sandbox dev) nfs localPath remotePath w = (Inr True, w1)
         \<and> (case (if existsSync nfs (localfs w) (path_dirname nfs localDest) then (Inr (), localfs w)
                   else mkdirSync nfs (localfs w) (path_dirname nfs localDest)) of
               (Inl e, f1) \<Rightarrow>
                 pullFile (storing_sandbox dev) nfs remotePath localDest w1 =
                   (Inl (JsError ''FileError'' (''Failed to pull file '' @ remotePath @ '' to ''
                           @ localDest @ '': '' @ err_message e)),
                    w1\<lparr>trace := tr2, localfs := f1\<rparr>)
             | (Inr made, f1) \<Rightarrow>
                 (case writeFileSync nfs f1 localDest bs of
                    (Inl e, f2) \<Rightarrow>
                      pullFile (storing_sandbox dev) nfs remotePath localDest w1 =
                        (Inl (JsError ''FileError'' (''Failed to pull file '' @ remotePath @ '' to ''
                                @ localDest @ '': '' @ err_message e)),
                         w1\<lparr>trace := tr2, localfs := f2\<rparr>)
                  | (Inr written, f2) \<Rightarrow>
                      pullFile (storing_sandbox dev) nfs remotePath localDest w1 =
                        (Inr True, w1\<lparr>trace := tr2, localfs := f2\<rparr>)
                      \<and> ((\<forall>f p c f'. writeFileSync nfs f p c = (Inr (), f')
                              \<longrightarrow> readFileSync nfs f' p = Inr c)
                           \<longrightarrow> readFileSync nfs f2 localDest = Inr bs)))))"
proof (intro conjI impI)
  assume "\<not> existsSync nfs (localfs w) localPath"
  then show "pushFile sb nfs localPath remotePath w =
        (Inl (JsError ''FileError'' (''Failed to push file '' @ localPath @ '' to '' @ remotePath
               @ '': Local file '' @ localPath @ '' does not exist'')), w)"
    by (rule pushFile_missing)
next
  assume "existsSync nfs (localfs w) localPath \<and> readFileSync nfs (localfs w) localPath = Inl err"
  then show "pushFile sb nfs localPath remotePath w =
        (Inl (JsError ''FileError'' (''Failed to push file '' @ localPath @ '' to '' @ remotePath
               @ '': '' @ err_message err)), w)"
    by (simp add: pushFile_def FileError_bound)
next
  assume a: "existsSync nfs (localfs w) localPath \<and> readFileSync nfs (localfs w) localPath = Inr bs"
  let ?w1 = "w\<lparr>trace := trace w @ [ApiPost ''/files/push''
                        (JObj [(''deviceId'', dev), (''path'', JStr remotePath),
                               (''content'', JStr (toString_base64 bs))])]\<rparr>"
  have push: "pushFile (storing_sandbox dev) nfs localPath remotePath w = (Inr True, ?w1)"
    using a by (simp add: pushFile_stores)
  have pull: "pullFile (storing_sandbox dev) nfs remotePath localDest ?w1 = 
     (case (if existsSync nfs (localfs ?w1) (path_dirname nfs localDest) then (Inr (), localfs ?w1)
            else mkdirSync nfs (localfs ?w1) (path_dirname nfs localDest)) of
        (Inl e, f1) \<Rightarrow>
          (Inl (JsError ''FileError'' (''Failed to pull file '' @ remotePath @ '' to '' @ localDest
                  @ '': '' @ err_message e)),
           ?w1\<lparr>trace := trace ?w1 @ [ApiGet ''/files/pull''
                  (JObj [(''deviceId'', dev), (''path'', JStr remotePath)])], localfs := f1\<rparr>)
      | (Inr made, f1) \<Rightarrow>
          (case writeFileSync nfs f1 localDest bs of
             (Inl e, f2) \<Rightarrow>
               (Inl (JsError ''FileError'' (''Failed to pull file '' @ remotePath @ '' to '' @ localDest
                       @ '': '' @ err_message e)),
                ?w1\<lparr>trace := trace ?w1 @ [ApiGet ''/files/pull''
                       (JObj [(''deviceId'', dev), (''path'', JStr remotePath)])], localfs := f2\<rparr>)
           | (Inr written, f2) \<Rightarrow>
               (Inr True,
                ?w1\<lparr>trace := trace ?w1 @ [ApiGet ''/files/pull''
                       (JObj [(''deviceId'', dev), (''path'', JStr remotePath)])], localfs := f2\<rparr>)))"
    by (rule pullFile_after_push [where tr = "trace w" and d = dev]) simp
  show "(let w1 = ?w1;
             tr2 = trace w1 @ [ApiGet ''/files/pull''
                                 (JObj [(''deviceId'', dev), (''path'', JStr remotePath)])]
         in
         pushFile (storing_sandbox dev) nfs localPath remotePath w = (Inr True, w1)
         \<and> (case (if existsSync nfs (localfs w) (path_dirname nfs localDest) then (Inr (), localfs w)
                   else mkdirSync nfs (localfs w) (path_dirname nfs localDest)) of
               (Inl e, f1) \<Rightarrow>
                 pullFile (storing_sandbox dev) nfs remotePath localDest w1 =
                   (Inl (JsError ''FileError'' (''Failed to pull file '' @ remotePath @ '' to ''
                           @ localDest @ '': '' @ err_message e)),
                    w1\<lparr>trace := tr2, localfs := f1\<rparr>)
             | (Inr made, f1) \<Rightarrow>
                 (case writeFileSync nfs f1 localDest bs of
                    (Inl e, f2) \<Rightarrow>
                      pullFile (storing_sandbox dev) nfs remotePath localDest w1 =
                        (Inl (JsError ''FileError'' (''Failed to pull file '' @ remotePath @ '' to ''
                                @ localDest @ '': '' @ err_message e)),
                         w1\<lparr>trace := tr2, localfs := f2\<rparr>)
                  | (Inr written, f2) \<Rightarrow>
                      pullFile (storing_sandbox dev) nfs remotePath localDest w1 =
                        (Inr True, w1\<lparr>trace := tr2, localfs := f2\<rparr>)
                      \<and> ((\<forall>f p c f'. writeFileSync nfs f p c = (Inr (), f')
                              \<longrightarrow> readFileSync nfs f' p = Inr c)
                           \<longrightarrow> readFileSync nfs f2 localDest = Inr bs))))"
    unfolding Let_def push pull
    by (auto split: prod.splits sum.splits)
qed

lemma example_fs_reads_back:
  "\<forall>f p c f'. writeFileSync example_fs f p c = (Inr (), f') \<longrightarrow> readFileSync example_fs f' p = Inr c"
  by (auto simp: example_fs_def split: if_splits)

theorem push_pull_roundtrip_witness:
  "\<not> existsSync example_fs (localfs example_world) ''/tmp/missing''
   \<and> pushFile failing_sandbox example_fs ''/tmp/missing'' ''/sdcard/a.bin'' example_world =
       (Inl (JsError ''FileError''
          ''Failed to push file /tmp/missing to /sdcard/a.bin: Local file /tmp/missing does not exist''),
        example_world)
   \<and> existsSync example_fs (localfs example_world) ''/tmp''
   \<and> pushFile failing_sandbox example_fs ''/tmp'' ''/sdcard/a.bin'' example_world =
       (Inl (JsError ''FileError''
          ''Failed to push file /tmp to /sdcard/a.bin: EISDIR: illegal operation on a directory, read''),
        example_world)
   \<and> existsSync example_fs (localfs example_world) ''/tmp/a.bin''
   \<and> readFileSync example_fs (localfs example_world) ''/tmp/a.bin'' = Inr [72, 105, 33, 10]
   \<and> (\<exists>w1 w2. pushFile (storing_sandbox (JStr ''dev-1'')) example_fs ''/tmp/a.bin'' ''/sdcard/a.bin''
                  example_world = (Inr True, w1)
        \<and> pullFile (storing_sandbox (JStr ''dev-1'')) example_fs ''/sdcard/a.bin'' ''/tmp/new/b.bin'' w1
            = (Inr True, w2)
        \<and> readFileSync example_fs (localfs w2) ''/tmp/new/b.bin'' = Inr [72, 105, 33, 10]
        \<and> localfs w2 ''/tmp/new'' = Some Dir)
   \<and> (\<exists>w1 w2. pushFile (storing_sandbox (JStr ''dev-1'')) example_fs ''/tmp/a.bin'' ''/sdcard/a.bin''
                  example_world = (Inr True, w1)
        \<and> pullFile (storing_sandbox (JStr ''dev-1'')) example_fs ''/sdcard/a.bin''
              ''/tmp/a.bin/sub/out.bin'' w1
            = (Inl (JsError ''FileError''
                 ''Failed to pull file /sdcard/a.bin to /tmp/a.bin/sub/out.bin: ENOTDIR: not a directory, mkdir /tmp/a.bin''),
               w2))"
  using push_pull_roundtrip [where w = example_world and localPath = "''/tmp''"
      and sb = failing_sandbox and nfs = example_fs and remotePath = "''/sdcard/a.bin''"
      and err = "JsError ''Error'' ''EISDIR: illegal operation on a directory, read''"
      and localDest = "''/tmp/new/b.bin''" and dev = "JStr ''dev-1''"]
    push_pull_roundtrip [where w = example_world and localPath = "''/tmp/missing''"
      and sb = failing_sandbox and nfs = example_fs and remotePath = "''/sdcard/a.bin''"
      and bs = "[72, 105, 33, 10]" and localDest = "''/tmp/new/b.bin''"
      and dev = "JStr ''dev-1''"]
    push_pull_roundtrip [where w = example_world and localPath = "''/tmp/a.bin''"
      and sb = failing_sandbox and nfs = example_fs and remotePath = "''/sdcard/a.bin''"
      and bs = "[72, 105, 33, 10]" and localDest = "''/tmp/new/b.bin''"
      and dev = "JStr ''dev-1''"]
    push_pull_roundtrip [where w = example_world and localPath = "''/tmp/a.bin''"
      and sb = failing_sandbox and nfs = example_fs and remotePath = "''/sdcard/a.bin''"
      and bs = "[72, 105, 33, 10]" and localDest = "''/tmp/a.bin/sub/out.bin''"
      and dev = "JStr ''dev-1''"]
    example_fs_reads_back
  by (simp add: example_world_def example_fs_def parent_of_def Let_def)

subsection \<open>AndroidSandbox: provisioning\<close>

lemma init_catch_is_ConnectionError: "\<exists>m. init_catch t = JsError ''ConnectionError'' m"
  by (cases t) (auto simp: new_error_def exceptions_exports_def split: option.splits)

lemma initializeDevice_success:
  assumes "provision h session_id sb = Inr r" and "resp_status r = 201"
    and "\<not> nullish (resp_data r)" and "truthy (field (resp_data r) ''device_id'')"
  shows "initializeDevice h session_id sb =
     (Inr (field (resp_data r) ''device_id''), sb\<lparr>device_id := field (resp_data r) ''device_id''\<rparr>)"
  using assms by (simp add: initializeDevice_def Let_def)

text \<open>
  C3: whenever the provisioning call is rejected (with a refused status, with no
  response, or before the request was sent), or resolves with a status other than 201, or
  resolves with 201 and a body without a (truthy) \<open>device_id\<close>, \<open>_initializeDevice\<close>
  raises a ConnectionError and the sandbox, its stored device id included, is unchanged.
\<close>

theorem initializeDevice_failure:
  assumes "case provision h session_id sb of
             Inl e \<Rightarrow> True
           | Inr r \<Rightarrow> resp_status r \<noteq> 201 \<or> nullish (resp_data r)
                        \<or> \<not> truthy (field (resp_data r) ''device_id'')"
  shows "\<exists>m. initializeDevice h session_id sb = (Inl (JsError ''ConnectionError'' m), sb)"
proof -
  have "\<exists>t. initializeDevice h session_id sb = (Inl (init_catch t), sb)"
    using assms
    by (auto simp: initializeDevice_def Let_def simp del: init_catch.simps split: sum.splits)
  then show ?thesis
    using init_catch_is_ConnectionError by metis
qed

theorem initializeDevice_failure_witness:
  "initializeDevice (http_of (Inr (Response 201 (JObj [(''status'', JStr ''ok'')])))) ''sess-1''
       fresh_sandbox
     = (Inl (JsError ''ConnectionError''
          ''Connection error when initializing device: Missing device_id in API response''),
        fresh_sandbox)
   \<and> device_id fresh_sandbox = JNull
   \<and> (\<exists>m. initializeDevice (http_of no_reply) ''sess-1'' fresh_sandbox
            = (Inl (JsError ''ConnectionError'' m), fresh_sandbox))"
  using initializeDevice_failure
      [of "http_of (Inr (Response 201 (JObj [(''status'', JStr ''ok'')])))" "''sess-1''" fresh_sandbox]
    initializeDevice_failure [of "http_of no_reply" "''sess-1''" fresh_sandbox]
  by (simp add: initializeDevice_def provision_def http_of_def fresh_sandbox_def nullish_def
      field_def new_error_def exceptions_exports_def no_reply_def)

subsection \<open>AndroidSandbox: best-effort operations\<close>

lemma settle_input_failed:
  "failed_outcome out \<Longrightarrow> \<exists>msg. settle_input a b out = (Inr (), [msg])"
  by (auto simp: failed_outcome_def settle_input_def split: sum.splits)

lemma settle_input_returns: "\<exists>log. settle_input a b out = (Inr (), log)"
  by (auto simp: settle_input_def split: sum.splits)

lemma screenshot_returns: "\<exists>r log. screenshot h sb = (Inr r, log)"
  by (auto simp: screenshot_def Let_def split: sum.splits prod.splits)

lemma shell_returns: "\<exists>r log. shell h sb c = (Inr r, log)"
  by (auto simp: shell_def Let_def split: sum.splits)

lemma screenshot_failed:
  "failed_outcome (get_json h (device_url sb ''/screenshot'') (accept_headers sb) 30000) \<Longrightarrow>
   \<exists>msg. screenshot h sb = (Inr (Some []), [msg])"
  by (auto simp: failed_outcome_def screenshot_def Let_def split: sum.splits)

lemma screenshot_download_failed:
  assumes "get_json h (device_url sb ''/screenshot'') (accept_headers sb) 30000 = Inr r"
    and "resp_status r = 200" and "\<not> nullish (resp_data r)"
    and "\<not> truthy (field (resp_data r) ''image_data'')"
    and "truthy (field (resp_data r) ''image_url'')"
    and "case get_arraybuffer h (field (resp_data r) ''image_url'') 30000 of
           Inl e \<Rightarrow> True | Inr (st, bytes) \<Rightarrow> st \<noteq> 200"
  shows "\<exists>msg. screenshot h sb = (Inr (Some []), [msg])"
  using assms by (auto simp: screenshot_def Let_def split: sum.splits)

lemma screenshot_decode_failed:
  assumes "get_json h (device_url sb ''/screenshot'') (accept_headers sb) 30000 = Inr r"
    and "resp_status r = 200" and "\<not> nullish (resp_data r)"
    and "truthy (field (resp_data r) ''image_data'')"
    and "Buffer_from_base64 (field (resp_data r) ''image_data'') = Inl e"
  shows "\<exists>msg. screenshot h sb = (Inr (Some []), [msg])"
  using assms by (auto simp: screenshot_def Let_def split: sum.splits)

lemma screenshot_nullish_body:
  assumes "get_json h (device_url sb ''/screenshot'') (accept_headers sb) 30000 = Inr r"
    and "resp_status r = 200" and "nullish (resp_data r)"
  shows "\<exists>msg. screenshot h sb = (Inr (Some []), [msg])"
  using assms by (auto simp: screenshot_def Let_def split: sum.splits)

lemma screenshot_undefined:
  assumes "get_json h (device_url sb ''/screenshot'') (accept_headers sb) 30000 = Inr r"
    and "resp_status r = 200" and "\<not> nullish (resp_data r)"
    and "\<not> truthy (field (resp_data r) ''image_data'')"
    and "\<not> truthy (field (resp_data r) ''image_url'')"
  shows "screenshot h sb = (Inr None, [])"
  using assms by (simp add: screenshot_def)

lemma shell_nullish_body:
  assumes "post_shell h (device_url sb ''/shell'') c (json_headers sb) 30000 = Inr r"
    and "resp_status r = 200" and "nullish (resp_data r)"
  shows "\<exists>msg. shell h sb c = (Inr (JStr []), [msg])"
  using assms by (simp add: shell_def)

lemma shell_failed:
  "failed_outcome (post_shell h (device_url sb ''/shell'') c (json_headers sb) 30000) \<Longrightarrow>
   \<exists>msg. shell h sb c = (Inr (JStr []), [msg])"
  by (auto simp: failed_outcome_def shell_def Let_def split: sum.splits)

text \<open>
  C8: called with arguments of their documented types, no gesture or keyboard method,
  nor \<open>screenshot\<close>, nor \<open>shell\<close>, ever raises. When its request is rejected or answered with a status other than 200, the method
  writes one line to the console (a warning for the status, an error line for the
  rejection) and returns its default: nothing for the gestures, the empty buffer for
  \<open>screenshot\<close>, the empty string for \<open>shell\<close>. The same holds for \<open>screenshot\<close> when
  its second request, the download of the image URL, is rejected or answered with a status
  other than 200, when the image data cannot be decoded, and when the 200 response has
  no body; and for \<open>shell\<close> when the 200 response has no body.
\<close>

theorem best_effort_defaults:
  "(\<exists>log. tap h sb x y = (Inr (), log))
   \<and> (\<exists>log. doubleTap h sb x y = (Inr (), log))
   \<and> (\<exists>log. swipe h sb start end' duration_ms = (Inr (), log))
   \<and> (\<exists>log. longPress h sb x y duration_ms = (Inr (), log))
   \<and> (\<exists>log. pinchOut h sb center distance = (Inr (), log))
   \<and> (\<exists>log. typeText h sb text' = (Inr (), log))
   \<and> (\<exists>log. pressKey h sb key = (Inr (), log))
   \<and> (\<exists>log. pressCombo h sb keys = (Inr (), log))
   \<and> (\<exists>r log. screenshot h sb = (Inr r, log))
   \<and> (\<exists>r log. shell h sb command = (Inr r, log))
   \<and> (failed_outcome (post_input h (device_url sb ''/input/tap'') (TapPayload x y)
          (json_headers sb) 10000)
        \<longrightarrow> (\<exists>msg. tap h sb x y = (Inr (), [msg])))
   \<and> (failed_outcome (post_input h (device_url sb ''/input/double_tap'') (TapPayload x y)
          (json_headers sb) 10000)
        \<longrightarrow> (\<exists>msg. doubleTap h sb x y = (Inr (), [msg])))
   \<and> (failed_outcome (post_input h (device_url sb ''/input/swipe'')
          (SwipePayload (fst start) (snd start) (fst end') (snd end') duration_ms)
          (json_headers sb) 10000)
        \<longrightarrow> (\<exists>msg. swipe h sb start end' duration_ms = (Inr (), [msg])))
   \<and> (failed_outcome (post_input h (device_url sb ''/input/long_press'')
          (LongPressPayload x y duration_ms) (json_headers sb) 10000)
        \<longrightarrow> (\<exists>msg. longPress h sb x y duration_ms = (Inr (), [msg])))
   \<and> (failed_outcome (post_input h (device_url sb ''/input/pinch'')
          (PinchPayload (fst center) (snd center) distance ''out'') (json_headers sb) 10000)
        \<longrightarrow> (\<exists>msg. pinchOut h sb center distance = (Inr (), [msg])))
   \<and> (failed_outcome (post_input h (device_url sb ''/input/text'') (TextPayload text')
          (json_headers sb) 15000)
        \<longrightarrow> (\<exists>msg. typeText h sb text' = (Inr (), [msg])))
   \<and> (failed_outcome (post_input h (device_url sb ''/input/key'') (KeyPayload key)
          (json_headers sb) 10000)
        \<longrightarrow> (\<exists>msg. pressKey h sb key = (Inr (), [msg])))
   \<and> (failed_outcome (post_input h (device_url sb ''/input/combo'') (ComboPayload keys)
          (json_headers sb) 10000)
        \<longrightarrow> (\<exists>msg. pressCombo h sb keys = (Inr (), [msg])))
   \<and> (failed_outcome (get_json h (device_url sb ''/screenshot'') (accept_headers sb) 30000)
        \<longrightarrow> (\<exists>msg. screenshot h sb = (Inr (Some []), [msg])))
   \<and> (failed_outcome (post_shell h (device_url sb ''/shell'') command (json_headers sb) 30000)
        \<longrightarrow> (\<exists>msg. shell h sb command = (Inr (JStr []), [msg])))
   \<and> (\<forall>r. get_json h (device_url sb ''/screenshot'') (accept_headers sb) 30000 = Inr r
            \<and> resp_status r = 200 \<and> \<not> nullish (resp_data r)
            \<and> \<not> truthy (field (resp_data r) ''image_data'')
            \<and> truthy (field (resp_data r) ''image_url'')
            \<and> (case get_arraybuffer h (field (resp_data r) ''image_url'') 30000 of
                  Inl e \<Rightarrow> True | Inr (st, bytes) \<Rightarrow> st \<noteq> 200)
          \<longrightarrow> (\<exists>msg. screenshot h sb = (Inr (Some []), [msg])))
   \<and> (\<forall>r e. get_json h (device_url sb ''/screenshot'') (accept_headers sb) 30000 = Inr r
            \<and> resp_status r = 200 \<and> \<not> nullish (resp_data r)
            \<and> truthy (field (resp_data r) ''image_data'')
            \<and> Buffer_from_base64 (field (resp_data r) ''image_data'') = Inl e
          \<longrightarrow> (\<exists>msg. screenshot h sb = (Inr (Some []), [msg])))
   \<and> (\<forall>r. get_json h (device_url sb ''/screenshot'') (accept_headers sb) 30000 = Inr r
            \<and> resp_status r = 200 \<and> nullish (resp_data r)
          \<longrightarrow> (\<exists>msg. screenshot h sb = (Inr (Some []), [msg])))
   \<and> (\<forall>r. post_shell h (device_url sb ''/shell'') command (json_headers sb) 30000 = Inr r
            \<and> resp_status r = 200 \<and> nullish (resp_data r)
          \<longrightarrow> (\<exists>msg. shell h sb command = (Inr (JStr []), [msg])))"
proof -
  have first: "(\<exists>log. tap h sb x y = (Inr (), log))
   \<and> (\<exists>log. doubleTap h sb x y = (Inr (), log))
   \<and> (\<exists>log. swipe h sb start end' duration_ms = (Inr (), log))
   \<and> (\<exists>log. longPress h sb x y duration_ms = (Inr (), log))
   \<and> (\<exists>log. pinchOut h sb center distance = (Inr (), log))
   \<and> (\<exists>log. typeText h sb text' = (Inr (), log))
   \<and> (\<exists>log. pressKey h sb key = (Inr (), log))
   \<and> (\<exists>log. pressCombo h sb keys = (Inr (), log))
   \<and> (\<exists>r log. screenshot h sb = (Inr r, log))
   \<and> (\<exists>r log. shell h sb command = (Inr r, log))
   \<and> (failed_outcome (post_input h (device_url sb ''/input/tap'') (TapPayload x y)
          (json_headers sb) 10000)
        \<longrightarrow> (\<exists>msg. tap h sb x y = (Inr (), [msg])))
   \<and> (failed_outcome (post_input h (device_url sb ''/input/double_tap'') (TapPayload x y)
          (json_headers sb) 10000)
        \<longrightarrow> (\<exists>msg. doubleTap h sb x y = (Inr (), [msg])))
   \<and> (failed_outcome (post_input h (device_url sb ''/input/swipe'')
          (SwipePayload (fst start) (snd start) (fst end') (snd end') duration_ms)
          (json_headers sb) 10000)
        \<longrightarrow> (\<exists>msg. swipe h sb start end' duration_ms = (Inr (), [msg])))
   \<and> (failed_outcome (post_input h (device_url sb ''/input/long_press'')
          (LongPressPayload x y duration_ms) (json_headers sb) 10000)
        \<longrightarrow> (\<exists>msg. longPress h sb x y duration_ms = (Inr (), [msg])))
   \<and> (failed_outcome (post_input h (device_url sb ''/input/pinch'')
          (PinchPayload (fst center) (snd center) distance ''out'') (json_headers sb) 10000)
        \<longrightarrow> (\<exists>msg. pinchOut h sb center distance = (Inr (), [msg])))
   \<and> (failed_outcome (post_input h (device_url sb ''/input/text'') (TextPayload text')
          (json_headers sb) 15000)
        \<longrightarrow> (\<exists>msg. typeText h sb text' = (Inr (), [msg])))
   \<and> (failed_outcome (post_input h (device_url sb ''/input/key'') (KeyPayload key)
          (json_headers sb) 10000)
        \<longrightarrow> (\<exists>msg. pressKey h sb key = (Inr (), [msg])))
   \<and> (failed_outcome (post_input h (device_url sb ''/input/combo'') (ComboPayload keys)
          (json_headers sb) 10000)
        \<longrightarrow> (\<exists>msg. pressCombo h sb keys = (Inr (), [msg])))
   \<and> (failed_outcome (get_json h (device_url sb ''/screenshot'') (accept_headers sb) 30000)
        \<longrightarrow> (\<exists>msg. screenshot h sb = (Inr (Some []), [msg])))
   \<and> (failed_outcome (post_shell h (device_url sb ''/shell'') command (json_headers sb) 30000)
        \<longrightarrow> (\<exists>msg. shell h sb command = (Inr (JStr []), [msg])))"
    unfolding tap_def doubleTap_def swipe_def longPress_def pinchOut_def typeText_def
      pressKey_def pressCombo_def
    by (intro conjI impI settle_input_returns settle_input_failed screenshot_returns
        shell_returns screenshot_failed shell_failed)
  have download: "\<forall>r. get_json h (device_url sb ''/screenshot'') (accept_headers sb) 30000 = Inr r
            \<and> resp_status r = 200 \<and> \<not> nullish (resp_data r)
            \<and> \<not> truthy (field (resp_data r) ''image_data'')
            \<and> truthy (field (resp_data r) ''image_url'')
            \<and> (case get_arraybuffer h (field (resp_data r) ''image_url'') 30000 of
                  Inl e \<Rightarrow> True | Inr (st, bytes) \<Rightarrow> st \<noteq> 200)
          \<longrightarrow> (\<exists>msg. screenshot h sb = (Inr (Some []), [msg]))"
    using screenshot_download_failed by blast
  have decode: "\<forall>r e. get_json h (device_url sb ''/screenshot'') (accept_headers sb) 30000 = Inr r
            \<and> resp_status r = 200 \<and> \<not> nullish (resp_data r)
            \<and> truthy (field (resp_data r) ''image_data'')
            \<and> Buffer_from_base64 (field (resp_data r) ''image_data'') = Inl e
          \<longrightarrow> (\<exists>msg. screenshot h sb = (Inr (Some []), [msg]))"
    using screenshot_decode_failed by blast
  have body: "\<forall>r. get_json h (device_url sb ''/screenshot'') (accept_headers sb) 30000 = Inr r
            \<and> resp_status r = 200 \<and> nullish (resp_data r)
          \<longrightarrow> (\<exists>msg. screenshot h sb = (Inr (Some []), [msg]))"
    using screenshot_nullish_body by blast
  have shell_body: "\<forall>r. post_shell h (device_url sb ''/shell'') command (json_headers sb) 30000 = Inr r
            \<and> resp_status r = 200 \<and> nullish (resp_data r)
          \<longrightarrow> (\<exists>msg. shell h sb command = (Inr (JStr []), [msg]))"
    using shell_nullish_body by blast
  from first download decode body shell_body show ?thesis by blast
qed

theorem best_effort_defaults_witness:
  "tap (http_of no_reply) fresh_sandbox 10 20
     = (Inr (), [Error ''Error performing tap: timeout of 10000ms exceeded''])
   \<and> pressCombo (http_of (Inr (Response 503 JNull))) fresh_sandbox [''CTRL'', ''C'']
     = (Inr (), [Warn ''Warning: Press combo operation returned status code 503''])
   \<and> screenshot (http_of no_reply) fresh_sandbox
     = (Inr (Some []), [Error ''Error taking screenshot: timeout of 10000ms exceeded''])
   \<and> screenshot (http_of (Inr (Response 503 JNull))) fresh_sandbox
     = (Inr (Some []), [Warn ''Warning: Screenshot operation returned status code 503''])
   \<and> shell (http_of no_reply) fresh_sandbox ''ls''
     = (Inr (JStr []), [Error ''Error executing shell command: timeout of 10000ms exceeded''])
   \<and> shell (http_of (Inr (Response 503 JNull))) fresh_sandbox ''ls''
     = (Inr (JStr []), [Warn ''Warning: Shell command operation returned status code 503''])
   \<and> screenshot (url_only_http (Inl (AxiosError None True ''timeout of 30000ms exceeded'')))
       fresh_sandbox
     = (Inr (Some []), [Error ''Error taking screenshot: timeout of 30000ms exceeded''])
   \<and> screenshot (url_only_http (Inr (404, []))) fresh_sandbox
     = (Inr (Some []), [Warn ''Warning: Failed to download screenshot from URL: 404''])
   \<and> screenshot (http_of (Inr (Response 200 (JObj [(''image_data'', JNum 7)])))) fresh_sandbox
     = (Inr (Some []),
        [Error ''Error taking screenshot: The first argument must be of type string or an instance of Buffer''])
   \<and> screenshot (http_of (Inr (Response 200 JNull))) fresh_sandbox
     = (Inr (Some []),
        [Error ''Error taking screenshot: Cannot read properties of undefined (reading image_data)''])
   \<and> shell (http_of (Inr (Response 200 JNull))) fresh_sandbox ''ls''
     = (Inr (JStr []),
        [Error ''Error executing shell command: Cannot read properties of undefined (reading output)''])"
  using best_effort_defaults [where h = "http_of no_reply" and sb = fresh_sandbox and x = 10
      and y = 20 and keys = "[''CTRL'', ''C'']" and command = "''ls''"]
    best_effort_defaults [where h = "http_of (Inr (Response 503 JNull))" and sb = fresh_sandbox
      and x = 10 and y = 20 and keys = "[''CTRL'', ''C'']" and command = "''ls''"]
    best_effort_defaults
      [where h = "url_only_http (Inl (AxiosError None True ''timeout of 30000ms exceeded''))"
       and sb = fresh_sandbox]
    best_effort_defaults [where h = "url_only_http (Inr (404, []))" and sb = fresh_sandbox]
    best_effort_defaults
      [where h = "http_of (Inr (Response 200 (JObj [(''image_data'', JNum 7)])))"
       and sb = fresh_sandbox]
    best_effort_defaults [where h = "http_of (Inr (Response 200 JNull))" and sb = fresh_sandbox
      and command = "''ls''"]
  by (simp add: tap_def pressCombo_def screenshot_def shell_def settle_input_def http_of_def
      url_only_http_def no_reply_def show_int_def digit_char_def nullish_def field_def
      Buffer_from_base64_def read_error_def)

subsection \<open>AndroidSandbox.waitForApp\<close>

lemma poll_once_reports:
  "fst (poll_once outcome p) = (reported_app outcome = Some (JStr p))"
  by (auto simp: poll_once_def reported_app_def Let_def split: sum.splits)

lemma waitForApp_loop_expired:
  "end_time \<le> now \<Longrightarrow>
   waitForApp_loop env sb p end_time now polls out = Some (Inr False, polls, out)"
  by (subst waitForApp_loop.simps) simp

lemma waitForApp_loop_step:
  "now < end_time \<Longrightarrow>
   waitForApp_loop env sb p end_time now polls out =
     (if poll_reports env sb (length polls) p then
        Some (Inr True, polls @ [now],
              out @ snd (poll_once (poll_reply env (length polls) (device_url sb ''/current_app'')
                                      (accept_headers sb) 10000) p))
      else
        waitForApp_loop env sb p end_time
          (now + poll_latency env (length polls) + wait_elapsed env (length polls) 500) (polls @ [now])
          (out @ snd (poll_once (poll_reply env (length polls) (device_url sb ''/current_app'')
                                   (accept_headers sb) 10000) p)))"
  using poll_once_reports
    [of "poll_reply env (length polls) (device_url sb ''/current_app'') (accept_headers sb) 10000" p]
  by (subst waitForApp_loop.simps) (auto simp: poll_reports_def split: prod.splits)

lemma waitForApp_1000_unfold:
  assumes "\<forall>k. 334 \<le> wait_elapsed env k 500"
  shows "\<exists>out. waitForApp env sb p 1000 =
           Some (fst (polls_1000 env sb p), snd (polls_1000 env sb p), out)"
proof -
  have w: "334 \<le> wait_elapsed env 0 500" "334 \<le> wait_elapsed env 1 500" "334 \<le> wait_elapsed env 2 500"
    using assms by auto
  let ?s = "clock_start env"
  let ?t1 = "?s + poll_latency env 0 + wait_elapsed env 0 500"
  let ?t2 = "?t1 + poll_latency env 1 + wait_elapsed env 1 500"
  consider "poll_reports env sb 0 p"
    | "\<not> poll_reports env sb 0 p" "\<not> ?t1 < ?s + 1000"
    | "\<not> poll_reports env sb 0 p" "?t1 < ?s + 1000" "poll_reports env sb 1 p"
    | "\<not> poll_reports env sb 0 p" "?t1 < ?s + 1000" "\<not> poll_reports env sb 1 p"
      "\<not> ?t2 < ?s + 1000"
    | "\<not> poll_reports env sb 0 p" "?t1 < ?s + 1000" "\<not> poll_reports env sb 1 p"
      "?t2 < ?s + 1000"
    by blast
  then show ?thesis
  proof cases
    case 1
    then show ?thesis
      by (simp add: waitForApp_def polls_1000_def Let_def waitForApp_loop_step)
  next
    case 2
    then show ?thesis
      by (simp add: waitForApp_def polls_1000_def Let_def waitForApp_loop_step waitForApp_loop_expired)
  next
    case 3
    then show ?thesis
      by (simp add: waitForApp_def polls_1000_def Let_def waitForApp_loop_step)
  next
    case 4
    then show ?thesis
      by (simp add: waitForApp_def polls_1000_def Let_def waitForApp_loop_step waitForApp_loop_expired)
  next
    case 5
    then show ?thesis using w
      by (simp add: waitForApp_def polls_1000_def Let_def waitForApp_loop_step
          waitForApp_loop_expired numeral_2_eq_2)
  qed
qed

lemma polls_1000_props:
  assumes "\<forall>k. 500 \<le> wait_elapsed env k 500 + early" and "early \<le> 166"
    and "polls_1000 env sb p = (result, polls)"
  shows "(result = Inr True \<or> result = Inr False)
     \<and> 1 \<le> length polls \<and> length polls \<le> 3
     \<and> polls ! 0 = clock_start env
     \<and> (\<forall>i < length polls. polls ! i < clock_start env + 1000)
     \<and> (\<forall>i. Suc i < length polls \<longrightarrow>
            polls ! Suc i = polls ! i + poll_latency env i + wait_elapsed env i 500
            \<and> polls ! i + 500 \<le> polls ! Suc i + early)
     \<and> (result = Inr False \<longrightarrow>
            clock_start env + 1000
              \<le> last polls + poll_latency env (length polls - 1) + wait_elapsed env (length polls - 1) 500)
     \<and> ((\<forall>k < length polls. \<not> poll_reports env sb k p) \<longrightarrow> result = Inr False)
     \<and> (\<forall>k < length polls. poll_reports env sb k p \<longrightarrow> result = Inr True \<and> length polls = Suc k)"
proof -
  have e: "500 \<le> wait_elapsed env 0 500 + early" "500 \<le> wait_elapsed env (Suc 0) 500 + early"
    "500 \<le> wait_elapsed env (Suc (Suc 0)) 500 + early"
    using assms(1) by auto
  let ?s = "clock_start env"
  let ?t1 = "?s + poll_latency env 0 + wait_elapsed env 0 500"
  let ?t2 = "?t1 + poll_latency env 1 + wait_elapsed env 1 500"
  consider "poll_reports env sb 0 p"
    | "\<not> poll_reports env sb 0 p" "\<not> ?t1 < ?s + 1000"
    | "\<not> poll_reports env sb 0 p" "?t1 < ?s + 1000" "poll_reports env sb 1 p"
    | "\<not> poll_reports env sb 0 p" "?t1 < ?s + 1000" "\<not> poll_reports env sb 1 p"
      "\<not> ?t2 < ?s + 1000"
    | "\<not> poll_reports env sb 0 p" "?t1 < ?s + 1000" "\<not> poll_reports env sb 1 p"
      "?t2 < ?s + 1000"
    by blast
  then show ?thesis
  proof cases
    case 1
    then have "result = Inr True" "polls = [?s]"
      using assms(3) by (simp_all add: polls_1000_def Let_def)
    then show ?thesis using 1 by simp
  next
    case 2
    then have "result = Inr False" "polls = [?s]"
      using assms(3) by (simp_all add: polls_1000_def Let_def)
    then show ?thesis using 2 by simp
  next
    case 3
    then have "result = Inr True" "polls = [?s, ?t1]"
      using assms(3) by (simp_all add: polls_1000_def Let_def)
    then show ?thesis using 3 e by (simp add: less_Suc_eq)
  next
    case 4
    then have "result = Inr False" "polls = [?s, ?t1]"
      using assms(3) by (simp_all add: polls_1000_def Let_def)
    then show ?thesis using 4 e by (simp add: less_Suc_eq)
  next
    case 5
    then have "result = Inr (poll_reports env sb 2 p)" "polls = [?s, ?t1, ?t2]"
      using assms(3) by (simp_all add: polls_1000_def Let_def)
    then show ?thesis using 5 e assms(2)
      by (simp add: less_Suc_eq numeral_2_eq_2 all_conj_distrib)
  qed
qed

text \<open>
  C7: where no 500 ms timer fires more than \<open>early\<close> ms before its 500 ms are over
  on the clock, for an \<open>early\<close> of at most 166, \<open>waitForApp(pkg, 1000)\<close> returns and
  never raises. It issues at least one poll and at most three; the first on entry, every
  one before the 1000 ms are over, each next one after the previous reply and one
  \<open>wait(500)\<close>, so at least 500 - \<open>early\<close> ms after the previous poll. It returns
  false only once the 1000 ms are over, and does so if none of the polls it issued
  reports \<open>pkg\<close>; the first poll that reports \<open>pkg\<close> is the last one issued and makes
  it return true.
\<close>

theorem waitForApp_1000:
  assumes "\<forall>k. 500 \<le> wait_elapsed env k 500 + early" and "early \<le> 166"
  shows "\<exists>result polls out.
     waitForApp env sb package_name 1000 = Some (result, polls, out)
     \<and> (result = Inr True \<or> result = Inr False)
     \<and> 1 \<le> length polls \<and> length polls \<le> 3
     \<and> polls ! 0 = clock_start env
     \<and> (\<forall>i < length polls. polls ! i < clock_start env + 1000)
     \<and> (\<forall>i. Suc i < length polls \<longrightarrow>
            polls ! Suc i = polls ! i + poll_latency env i + wait_elapsed env i 500
            \<and> polls ! i + 500 \<le> polls ! Suc i + early)
     \<and> (result = Inr False \<longrightarrow>
            clock_start env + 1000
              \<le> last polls + poll_latency env (length polls - 1) + wait_elapsed env (length polls - 1) 500)
     \<and> ((\<forall>k < length polls. \<not> poll_reports env sb k package_name) \<longrightarrow> result = Inr False)
     \<and> (\<forall>k < length polls. poll_reports env sb k package_name
            \<longrightarrow> result = Inr True \<and> length polls = Suc k)"
proof -
  have w: "\<forall>k. 334 \<le> wait_elapsed env k 500"
  proof
    fix k show "334 \<le> wait_elapsed env k 500" using assms(1) [rule_format, of k] assms(2) by linarith
  qed
  obtain out where u: "waitForApp env sb package_name 1000 =
      Some (fst (polls_1000 env sb package_name), snd (polls_1000 env sb package_name), out)"
    using waitForApp_1000_unfold [OF w] by blast
  have "polls_1000 env sb package_name =
      (fst (polls_1000 env sb package_name), snd (polls_1000 env sb package_name))"
    by simp
  from polls_1000_props [OF assms this] u show ?thesis by blast
qed

theorem waitForApp_1000_witness:
  "(\<forall>k. 500 \<le> wait_elapsed other_app_env k 500 + 1)
   \<and> waitForApp other_app_env fresh_sandbox ''pkg.x'' 1000 = Some (Inr False, [0, 499, 998], [])
   \<and> \<not> poll_reports other_app_env fresh_sandbox 0 ''pkg.x''
   \<and> \<not> poll_reports other_app_env fresh_sandbox 1 ''pkg.x''
   \<and> \<not> poll_reports other_app_env fresh_sandbox 2 ''pkg.x''
   \<and> (\<forall>k. 500 \<le> wait_elapsed second_poll_env k 500 + 0)
   \<and> waitForApp second_poll_env fresh_sandbox ''pkg.x'' 1000
       = Some (Inr True, [1000, 1523],
               [Error ''Error checking current app: timeout of 10000ms exceeded''])
   \<and> \<not> poll_reports second_poll_env fresh_sandbox 0 ''pkg.x''
   \<and> poll_reports second_poll_env fresh_sandbox 1 ''pkg.x''"
  using waitForApp_1000 [of other_app_env 1 fresh_sandbox "''pkg.x''"]
    waitForApp_1000 [of second_poll_env 0 fresh_sandbox "''pkg.x''"]
  by (simp add: waitForApp_def waitForApp_loop_step waitForApp_loop_expired poll_reports_def
      reported_app_def poll_once_def other_app_env_def second_poll_env_def no_reply_def
      nullish_def field_def Let_def)

subsection \<open>RecordManager\<close>

text \<open>
  The record manager imports \<open>RecordingError\<close>; the exceptions module exports
  \<open>RecordError\<close>. Every \<open>throw new RecordingError(...)\<close> of the manager therefore throws
  this TypeError, inside the \<open>try\<close> and again inside the \<open>catch\<close>.
\<close>

lemma RecordingError_unbound:
  "new_error ''RecordingError'' msg = JsError ''TypeError'' ''RecordingError is not a constructor''"
  by (simp add: new_error_def exceptions_exports_def)

lemma record_stop_not_recording:
  "\<not> isRecording m \<Longrightarrow>
   record_stop sb m tr = (Inl (JsError ''TypeError'' ''RecordingError is not a constructor''), m, tr)"
  by (simp add: record_stop_def RecordingError_unbound)

text \<open>
  The order of \<open>stop\<close> while recording, once the interrupt went through: interrupt,
  two-second timer, \<open>isRecording\<close> cleared, existence check. It returns the path exactly
  when the check prints \<open>exists\<close>, and raises otherwise, with the flag already cleared.
\<close>

lemma record_stop_order:
  assumes "isRecording m" and "shell_reply sb tr ''pkill -INT screenrecord'' = Inr out1"
  shows "\<exists>result.
     record_stop sb m tr =
       (result, m\<lparr>isRecording := False\<rparr>,
        tr @ [Shell ''pkill -INT screenrecord'', Sleep 2000,
              Shell (exists_command (recording_path (recordingId m)))])
     \<and> (result = Inr (recording_path (recordingId m))
          \<longleftrightarrow> (\<exists>out2. shell_reply sb (tr @ [Shell ''pkill -INT screenrecord'', Sleep 2000])
                  (exists_command (recording_path (recordingId m))) = Inr out2
                \<and> js_trim out2 = ''exists''))
     \<and> (result \<noteq> Inr (recording_path (recordingId m))
          \<longrightarrow> result = Inl (JsError ''TypeError'' ''RecordingError is not a constructor''))"
  using assms
  by (auto simp: record_stop_def executeShellCommand_def fileExists_def Let_def
      RecordingError_unbound split: sum.splits)

text \<open>
  C2: where the specification has \<open>stop\<close> fail with a RecordingError, the code throws
  a TypeError: with no recording in progress, and with a recording in progress whose
  artifact is not found (after the interrupt, the wait and the cleared flag).
\<close>

theorem record_stop_raises_TypeError:
  "record_stop missing_file_sandbox idle_recorder [] =
     (Inl (JsError ''TypeError'' ''RecordingError is not a constructor''), idle_recorder, [])
   \<and> record_stop missing_file_sandbox active_recorder [] =
     (Inl (JsError ''TypeError'' ''RecordingError is not a constructor''),
      active_recorder\<lparr>isRecording := False\<rparr>,
      [Shell ''pkill -INT screenrecord'', Sleep 2000,
       Shell (exists_command ''/sdcard/recording_r-1.mp4'')])"
  by (simp add: record_stop_def executeShellCommand_def fileExists_def Let_def
      missing_file_sandbox_def idle_recorder_def active_recorder_def recording_path_def id_str_def
      RecordingError_unbound js_trim_def js_space_def)

text \<open>
  While recording, \<open>deleteRecording\<close> of the tracked id (passed or defaulted) raises,
  changes nothing and issues no command.
\<close>

lemma deleteRecording_active:
  assumes "isRecording m" and "arg_or_default arg (recordingId m) = recordingId m"
  shows "deleteRecording sb arg m tr =
     (Inl (JsError ''TypeError'' ''RecordingError is not a constructor''), m, tr)"
  using assms
  by (auto simp: deleteRecording_def Let_def RecordingError_unbound)

text \<open>
  C4: in both argument forms the delete of the active recording is refused before any
  command is issued, but what is thrown is a TypeError, not a RecordingError.
\<close>

theorem deleteRecording_active_raises_TypeError:
  "deleteRecording missing_file_sandbox ArgUndefined active_recorder [] =
     (Inl (JsError ''TypeError'' ''RecordingError is not a constructor''), active_recorder, [])
   \<and> deleteRecording missing_file_sandbox (ArgStr ''r-1'') active_recorder [] =
     (Inl (JsError ''TypeError'' ''RecordingError is not a constructor''), active_recorder, [])"
  by (simp add: deleteRecording_active active_recorder_def arg_or_default_def)

lemma recording_path_inj: "recording_path (Some a) = recording_path (Some b) \<Longrightarrow> a = b"
  by (simp add: recording_path_def id_str_def)

text \<open>
  C10: when \<open>start\<close> is called with no recording in progress and the recording command
  is rejected, \<open>start\<close> raises after issuing that one command; \<open>isRecording\<close> is still
  false and the tracked id is the new id. From that state a \<open>deleteRecording()\<close>
  without argument removes the file named after the new id, and \<open>saveRecording\<close> pulls
  that file, which is not the file of the id tracked before.
\<close>

theorem failed_start_overwrites_id:
  assumes "\<not> isRecording m"
    and "shell_reply sb tr (screenrecord_command options (Some uuid)) = Inl e"
    and "uuid \<noteq> []"
  shows "(\<exists>err. record_start sb uuid now options m tr =
            (Inl err, m\<lparr>recordingId := Some uuid\<rparr>,
             tr @ [Shell (screenrecord_command options (Some uuid))]))
     \<and> \<not> isRecording (m\<lparr>recordingId := Some uuid\<rparr>)
     \<and> recordingId (m\<lparr>recordingId := Some uuid\<rparr>) = Some uuid
     \<and> snd (snd (deleteRecording sb ArgUndefined (m\<lparr>recordingId := Some uuid\<rparr>) tr_next)) =
         tr_next @ [Shell (''rm -f '' @ recording_path (Some uuid))]
     \<and> trace (snd (snd (saveRecording sb nfs localPath (m\<lparr>recordingId := Some uuid\<rparr>) w))) =
         trace w @ [ApiGet ''/files/pull''
                      (JObj [(''deviceId'', deviceId sb), (''path'', JStr (recording_path (Some uuid)))])]
     \<and> (\<forall>old. recordingId m = Some old \<and> old \<noteq> uuid
            \<longrightarrow> recording_path (Some uuid) \<noteq> recording_path (recordingId m))"
proof (intro conjI)
  show "\<exists>err. record_start sb uuid now options m tr =
            (Inl err, m\<lparr>recordingId := Some uuid\<rparr>,
             tr @ [Shell (screenrecord_command options (Some uuid))])"
    using assms by (simp add: record_start_def executeShellCommand_def Let_def)
  show "\<not> isRecording (m\<lparr>recordingId := Some uuid\<rparr>)" using assms by simp
  show "recordingId (m\<lparr>recordingId := Some uuid\<rparr>) = Some uuid" by simp
  show "snd (snd (deleteRecording sb ArgUndefined (m\<lparr>recordingId := Some uuid\<rparr>) tr_next)) =
         tr_next @ [Shell (''rm -f '' @ recording_path (Some uuid))]"
    using assms
    by (simp add: deleteRecording_def deleteFile_def executeShellCommand_def Let_def
        arg_or_default_def no_id_def split: sum.splits)
  show "trace (snd (snd (saveRecording sb nfs localPath (m\<lparr>recordingId := Some uuid\<rparr>) w))) =
         trace w @ [ApiGet ''/files/pull''
                      (JObj [(''deviceId'', deviceId sb), (''path'', JStr (recording_path (Some uuid)))])]"
    using assms
    by (simp add: saveRecording_def pullFile_def apiClient_get_def Let_def no_id_def
        split: sum.splits option.splits prod.splits)
  show "\<forall>old. recordingId m = Some old \<and> old \<noteq> uuid
            \<longrightarrow> recording_path (Some uuid) \<noteq> recording_path (recordingId m)"
    using recording_path_inj by auto
qed

theorem failed_start_overwrites_id_witness:
  "\<not> isRecording stopped_recorder
   \<and> recordingId stopped_recorder = Some ''r-1''
   \<and> record_start failing_sandbox ''r-2'' 5000 default_options stopped_recorder [] =
       (Inl (JsError ''TypeError'' ''RecordingError is not a constructor''),
        stopped_recorder\<lparr>recordingId := Some ''r-2''\<rparr>,
        [Shell ''screenrecord --size 1280x720 --bit-rate 8M --audio-source=mic --time-limit 180 /sdcard/recording_r-2.mp4''])
   \<and> snd (snd (deleteRecording failing_sandbox ArgUndefined
                  (stopped_recorder\<lparr>recordingId := Some ''r-2''\<rparr>) [])) =
       [Shell ''rm -f /sdcard/recording_r-2.mp4'']
   \<and> trace (snd (snd (saveRecording failing_sandbox example_fs ''/tmp/out.mp4''
                         (stopped_recorder\<lparr>recordingId := Some ''r-2''\<rparr>) example_world))) =
       [ApiGet ''/files/pull''
          (JObj [(''deviceId'', JStr ''dev-1''), (''path'', JStr ''/sdcard/recording_r-2.mp4'')])]"
  using failed_start_overwrites_id [where m = stopped_recorder and sb = failing_sandbox
      and tr = "[]" and options = default_options and uuid = "''r-2''" and now = 5000
      and e = "JsError ''Error'' ''socket hang up''" and tr_next = "[]"
      and nfs = example_fs and localPath = "''/tmp/out.mp4''" and w = example_world]
  by (simp add: record_start_def executeShellCommand_def screenrecord_command_def
      recording_path_def id_str_def show_int_def digit_char_def stopped_recorder_def
      default_options_def failing_sandbox_def example_world_def RecordingError_unbound)

subsection \<open>AppManager\<close>

lemma AppError_bound: "new_error ''AppError'' msg = JsError ''AppError'' msg"
  by (simp add: new_error_def exceptions_exports_def)

lemma starts_with_iff: "starts_with s p \<longleftrightarrow> (\<exists>post. s = p @ post)"
  by (induction s p rule: starts_with.induct) auto

lemma js_includes_iff: "js_includes s needle \<longleftrightarrow> (\<exists>pre post. s = pre @ needle @ post)"
proof (induction s)
  case Nil
  show ?case by auto
next
  case (Cons c cs)
  show ?case
  proof
    assume "js_includes (c # cs) needle"
    then consider "starts_with (c # cs) needle" | "js_includes cs needle" by auto
    then show "\<exists>pre post. c # cs = pre @ needle @ post"
    proof cases
      case 1
      then obtain post where "c # cs = needle @ post" using starts_with_iff by blast
      then have "c # cs = [] @ needle @ post" by simp
      then show ?thesis by blast
    next
      case 2
      then obtain pre post where "cs = pre @ needle @ post" using Cons.IH by blast
      then have "c # cs = (c # pre) @ needle @ post" by simp
      then show ?thesis by blast
    qed
  next
    assume "\<exists>pre post. c # cs = pre @ needle @ post"
    then obtain pre post where eq: "c # cs = pre @ needle @ post" by blast
    show "js_includes (c # cs) needle"
    proof (cases pre)
      case Nil
      with eq have "starts_with (c # cs) needle" using starts_with_iff by auto
      then show ?thesis by simp
    next
      case (Cons a pre')
      with eq have "cs = pre' @ needle @ post" by simp
      then have "js_includes cs needle" using Cons.IH by blast
      then show ?thesis by simp
    qed
  qed
qed

lemma isInstalled_substring:
  assumes "shell_reply sb tr (''pm list packages '' @ p) = Inr printed"
  shows "isInstalled sb p tr =
     (Inr (\<exists>pre post. printed = pre @ ''package:'' @ p @ post), tr @ [Shell (''pm list packages '' @ p)])"
  using assms js_includes_iff [of printed "''package:'' @ p"]
  by (simp add: isInstalled_def executeShellCommand_def)

text \<open>
  C5: the code tests for a substring, not for a token. On a device where only
  \<open>com.foo.extra\<close> is installed, \<open>isInstalled('com.foo')\<close> returns true although the
  output has no token \<open>package:com.foo\<close>, and \<open>launch\<close> goes past its install check.
\<close>

theorem isInstalled_counts_longer_name:
  "isInstalled extra_only_sandbox ''com.foo'' [] = (Inr True, [Shell ''pm list packages com.foo''])
   \<and> \<not> has_exact_token ''package:com.foo.extra\<newline>'' ''com.foo''
   \<and> fst (launch extra_only_sandbox ''com.foo'' []) =
       Inl (JsError ''AppError'' ''Failed to launch app com.foo: Could not find main activity for com.foo'')"
  by (simp add: isInstalled_def launch_def executeShellCommand_def extra_only_sandbox_def
      has_exact_token_def tokens_def js_space_def AppError_bound match_single_token_line_def
      js_line_terminator_def List.map_filter_simps)

lemma isInstalled_trace:
  "isInstalled sb p tr = (r, tr_after) \<Longrightarrow> tr_after = tr @ [Shell (''pm list packages '' @ p)]"
  by (auto simp: isInstalled_def executeShellCommand_def split: sum.splits)

text \<open>
  C6: when the install check returns false, \<open>launch\<close> raises an AppError saying the app
  is not installed, and the only command issued is the package listing of the check. When
  the check returns true and the output of the activity query has no line holding a
  single token, \<open>launch\<close> raises an AppError with a different message (the activity could
  not be found) after exactly the two commands.
\<close>

theorem launch_guards:
  "(isInstalled sb p tr = (Inr False, tr_after) \<longrightarrow>
      launch sb p tr =
        (Inl (JsError ''AppError'' (''Failed to launch app '' @ p @ '': App '' @ p @ '' is not installed'')),
         tr @ [Shell (''pm list packages '' @ p)]))
   \<and> (isInstalled sb p tr = (Inr True, tr_after)
        \<and> shell_reply sb tr_after (''cmd package resolve-activity --brief '' @ p) = Inr printed
        \<and> match_single_token_line printed = None \<longrightarrow>
      launch sb p tr =
        (Inl (JsError ''AppError''
               (''Failed to launch app '' @ p @ '': Could not find main activity for '' @ p)),
         tr @ [Shell (''pm list packages '' @ p), Shell (''cmd package resolve-activity --brief '' @ p)]))
   \<and> ''Failed to launch app '' @ p @ '': App '' @ p @ '' is not installed''
       \<noteq> ''Failed to launch app '' @ p @ '': Could not find main activity for '' @ p
   \<and> ''pm list packages '' @ p \<noteq> ''cmd package resolve-activity --brief '' @ p"
proof (intro conjI impI)
  assume a: "isInstalled sb p tr = (Inr False, tr_after)"
  then have "tr_after = tr @ [Shell (''pm list packages '' @ p)]" by (rule isInstalled_trace)
  with a show "launch sb p tr =
        (Inl (JsError ''AppError'' (''Failed to launch app '' @ p @ '': App '' @ p @ '' is not installed'')),
         tr @ [Shell (''pm list packages '' @ p)])"
    by (simp add: launch_def AppError_bound)
next
  assume a: "isInstalled sb p tr = (Inr True, tr_after)
        \<and> shell_reply sb tr_after (''cmd package resolve-activity --brief '' @ p) = Inr printed
        \<and> match_single_token_line printed = None"
  then have "tr_after = tr @ [Shell (''pm list packages '' @ p)]" using isInstalled_trace by blast
  with a show "launch sb p tr =
        (Inl (JsError ''AppError''
               (''Failed to launch app '' @ p @ '': Could not find main activity for '' @ p)),
         tr @ [Shell (''pm list packages '' @ p), Shell (''cmd package resolve-activity --brief '' @ p)])"
    by (simp add: launch_def AppError_bound executeShellCommand_def)
qed simp_all

theorem launch_guards_witness:
  "isInstalled missing_file_sandbox ''com.foo'' [] = (Inr False, [Shell ''pm list packages com.foo''])
   \<and> launch missing_file_sandbox ''com.foo'' [] =
       (Inl (JsError ''AppError'' ''Failed to launch app com.foo: App com.foo is not installed''),
        [Shell ''pm list packages com.foo''])
   \<and> isInstalled no_activity_sandbox ''com.foo'' [] = (Inr True, [Shell ''pm list packages com.foo''])
   \<and> match_single_token_line ''No activity found\<newline>'' = None
   \<and> launch no_activity_sandbox ''com.foo'' [] =
       (Inl (JsError ''AppError''
          ''Failed to launch app com.foo: Could not find main activity for com.foo''),
        [Shell ''pm list packages com.foo'', Shell ''cmd package resolve-activity --brief com.foo''])"
  using launch_guards [where sb = missing_file_sandbox and p = "''com.foo''" and tr = "[]"
      and tr_after = "[Shell ''pm list packages com.foo'']"]
    launch_guards [where sb = no_activity_sandbox and p = "''com.foo''" and tr = "[]"
      and tr_after = "[Shell ''pm list packages com.foo'']" and printed = "''No activity found\<newline>''"]
  by (simp add: isInstalled_def executeShellCommand_def missing_file_sandbox_def
      no_activity_sandbox_def match_single_token_line_def tokens_def js_space_def
      js_line_terminator_def List.map_filter_simps)

end
